theory Spec2Isabelle
  imports Complex_Main "HOL-Library.Log_Nat"
begin

section \<open>JavaScript values\<close>

text \<open>
  A JavaScript \<^verbatim>\<open>number\<close> is an IEEE-754 double: a finite value, which is a rational,
  or one of NaN, +Infinity, -Infinity. Finite values are embedded as the rationals they
  denote (the two zeros coincide: every comparison of the program treats them alike).
  Every finite double is a rational, so a statement about all \<open>Fin q\<close> covers all
  finite doubles.
\<close>

datatype number = Fin rat | NaN | PosInf | NegInf

text \<open>The relational operators \<^verbatim>\<open><\<close>, \<^verbatim>\<open><=\<close>, \<^verbatim>\<open>>\<close>: false as soon as an operand is NaN.\<close>

fun js_lt :: "number \<Rightarrow> number \<Rightarrow> bool" where
  "js_lt NaN _ = False"
| "js_lt _ NaN = False"
| "js_lt (Fin a) (Fin b) = (a < b)"
| "js_lt NegInf NegInf = False"
| "js_lt NegInf _ = True"
| "js_lt PosInf _ = False"
| "js_lt (Fin a) PosInf = True"
| "js_lt (Fin a) NegInf = False"

fun js_le :: "number \<Rightarrow> number \<Rightarrow> bool" where
  "js_le NaN _ = False"
| "js_le _ NaN = False"
| "js_le (Fin a) (Fin b) = (a \<le> b)"
| "js_le NegInf _ = True"
| "js_le PosInf PosInf = True"
| "js_le PosInf _ = False"
| "js_le (Fin a) PosInf = True"
| "js_le (Fin a) NegInf = False"

definition js_gt :: "number \<Rightarrow> number \<Rightarrow> bool" where
  "js_gt a b = js_lt b a"

text \<open>\<^verbatim>\<open>Number.isFinite\<close> and \<^verbatim>\<open>Number.isInteger\<close>.\<close>

fun isFinite :: "number \<Rightarrow> bool" where
  "isFinite (Fin _) = True"
| "isFinite _ = False"

fun isInteger :: "number \<Rightarrow> bool" where
  "isInteger (Fin q) = (q = of_int \<lfloor>q\<rfloor>)"
| "isInteger _ = False"

text \<open>
  \<^verbatim>\<open>Math.round\<close>: the integer closest to the argument, a tie going towards +Infinity;
  NaN and the infinities are returned as they are.
\<close>

fun js_round :: "number \<Rightarrow> number" where
  "js_round (Fin q) = Fin (of_int \<lfloor>q + 1 / 2\<rfloor>)"
| "js_round x = x"

text \<open>
  The product \<^verbatim>\<open>a * b\<close> of two doubles is the exact product rounded to the nearest
  double, a tie going to the even significand. \<open>ilog2 x\<close> is the binary exponent of a
  positive rational, \<open>to_double\<close> rounds a rational to 53 significant bits (with the
  fixed spacing \<open>2 ^ -1074\<close> in the subnormal range) and overflows to an infinity.
\<close>

definition pow2 :: "int \<Rightarrow> rat" where
  "pow2 e = (if 0 \<le> e then 2 ^ nat e else 1 / 2 ^ nat (- e))"

definition ilog2 :: "rat \<Rightarrow> int" where
  "ilog2 x = (if 1 \<le> x then int (floorlog 2 (nat \<lfloor>x\<rfloor>)) - 1
              else - int (floorlog 2 (nat (\<lceil>1 / x\<rceil> - 1))))"

definition round_half_even :: "rat \<Rightarrow> int" where
  "round_half_even m =
     (let f = \<lfloor>m\<rfloor>; r = m - of_int f
      in if r < 1 / 2 then f else if 1 / 2 < r then f + 1 else if even f then f else f + 1)"

definition to_double :: "rat \<Rightarrow> number" where
  "to_double x =
     (if x = 0 then Fin 0
      else let a = \<bar>x\<bar>;
               e = max (ilog2 a) (- 1022);
               u = pow2 (e - 52);
               r = of_int (round_half_even (a / u)) * u
           in if pow2 1024 \<le> r then (if 0 < x then PosInf else NegInf)
              else Fin (sgn x * r))"

fun js_mul :: "number \<Rightarrow> number \<Rightarrow> number" where
  "js_mul NaN _ = NaN"
| "js_mul _ NaN = NaN"
| "js_mul (Fin a) (Fin b) = to_double (a * b)"
| "js_mul (Fin a) PosInf = (if a = 0 then NaN else if 0 < a then PosInf else NegInf)"
| "js_mul (Fin a) NegInf = (if a = 0 then NaN else if 0 < a then NegInf else PosInf)"
| "js_mul PosInf (Fin b) = (if b = 0 then NaN else if 0 < b then PosInf else NegInf)"
| "js_mul NegInf (Fin b) = (if b = 0 then NaN else if 0 < b then NegInf else PosInf)"
| "js_mul PosInf PosInf = PosInf"
| "js_mul PosInf NegInf = NegInf"
| "js_mul NegInf PosInf = NegInf"
| "js_mul NegInf NegInf = PosInf"

text \<open>
  The values a caller can pass where the TypeScript signature says \<^verbatim>\<open>string\<close> (the tests
  pass \<^verbatim>\<open>null as any\<close> and \<^verbatim>\<open>undefined as any\<close>). A \<open>string\<close> is a list of code units
  of the Latin-1 range, one \<open>char\<close> each.
\<close>

datatype jsval = JStr string | JNull | JUndefined | JNum number | JBool bool

text \<open>
  What a \<^verbatim>\<open>throw\<close> or a rejected promise carries: an \<^verbatim>\<open>Error\<close> object with its message
  (every \<^verbatim>\<open>throw\<close> of this repository is \<^verbatim>\<open>throw new Error(message)\<close>), or, from a port,
  a value that is not an instance of \<^verbatim>\<open>Error\<close>.
\<close>

datatype thrown = Error string | NonError jsval

text \<open>\<^verbatim>\<open>String.prototype.toLowerCase\<close> on Latin-1 code units, and \<^verbatim>\<open>Array.prototype.join\<close>.\<close>

definition toLowerCase_char :: "char \<Rightarrow> char" where
  "toLowerCase_char c =
     (let n = (of_char c :: nat)
      in if (65 \<le> n \<and> n \<le> 90) \<or> (192 \<le> n \<and> n \<le> 222 \<and> n \<noteq> 215)
         then char_of (n + 32) else c)"

definition toLowerCase :: "string \<Rightarrow> string" where
  "toLowerCase s = map toLowerCase_char s"

fun join :: "string \<Rightarrow> string list \<Rightarrow> string" where
  "join sep [] = []"
| "join sep [x] = x"
| "join sep (x # y # ys) = x @ sep @ join sep (y # ys)"

section \<open>ImageValidation\<close>

text \<open>
  The four static validators. Each returns \<open>Inr ()\<close> where the source returns normally
  and \<open>Inl\<close> of the thrown error otherwise; the checks run in the source's order.
\<close>

definition validateDimensions :: "number \<Rightarrow> number \<Rightarrow> thrown + unit" where
  "validateDimensions width height =
     (if js_le width (Fin 0) \<or> js_le height (Fin 0)
      then Inl (Error ''Image dimensions must be positive numbers'')
      else if \<not> isInteger width \<or> \<not> isInteger height
      then Inl (Error ''Image dimensions must be integers'')
      else if js_gt width (Fin 10000) \<or> js_gt height (Fin 10000)
      then Inl (Error ''Image dimensions exceed maximum allowed size (10000px)'')
      else Inr ())"

definition supportedFormats :: "string list" where
  "supportedFormats = [''jpeg'', ''jpg'', ''png'', ''webp'', ''bmp'']"

text \<open>
  \<^verbatim>\<open>!format || typeof format !== 'string'\<close> holds for the empty string, for \<^verbatim>\<open>null\<close>, for
  \<^verbatim>\<open>undefined\<close> and for every value that is not a string.
\<close>

fun validateFormat :: "jsval \<Rightarrow> thrown + unit" where
  "validateFormat (JStr format) =
     (if format = [] then Inl (Error ''Image format must be a non-empty string'')
      else if toLowerCase format \<notin> set supportedFormats
      then Inl (Error (''Unsupported image format: '' @ format @ ''. Supported: ''
                        @ join '', '' supportedFormats))
      else Inr ())"
| "validateFormat _ = Inl (Error ''Image format must be a non-empty string'')"

definition maxSizeInBytes :: rat where
  "maxSizeInBytes = 50 * 1024 * 1024"

definition validateFileSize :: "number \<Rightarrow> thrown + unit" where
  "validateFileSize sizeInBytes =
     (if js_le sizeInBytes (Fin 0) then Inl (Error ''File size must be positive'')
      else if js_gt sizeInBytes (Fin maxSizeInBytes)
      then Inl (Error ''File size exceeds maximum allowed (50MB)'')
      else Inr ())"

definition validateUpscaleFactor :: "number \<Rightarrow> thrown + unit" where
  "validateUpscaleFactor factor =
     (if \<not> isFinite factor then Inl (Error ''Upscale factor must be a finite number'')
      else if js_le factor (Fin 1) then Inl (Error ''Upscale factor must be greater than 1'')
      else if js_gt factor (Fin 4)
      then Inl (Error ''Upscale factor cannot exceed 4x for performance reasons'')
      else Inr ())"

section \<open>ImageDimensions and Image\<close>

text \<open>
  A constructor that throws builds nothing: it returns \<open>Inl\<close>. \<^verbatim>\<open>new Date()\<close> is the
  argument \<open>now\<close>, the system clock's reading in milliseconds at the call. The private
  fields \<^verbatim>\<open>_width\<close>, \<^verbatim>\<open>_height\<close>, ... of the classes carry the prefixes \<open>dim_\<close>, \<open>img_\<close> and
  \<open>job_\<close>; a getter that only returns its field (or a copy of a date) is the field.
\<close>

record ImageDimensions =
  dim_width :: number
  dim_height :: number

definition new_ImageDimensions :: "number \<Rightarrow> number \<Rightarrow> thrown + ImageDimensions" where
  "new_ImageDimensions width height =
     (case validateDimensions width height of
        Inl e \<Rightarrow> Inl e
      | Inr _ \<Rightarrow> Inr \<lparr>dim_width = width, dim_height = height\<rparr>)"

record Image =
  img_id :: string
  img_width :: number
  img_height :: number
  img_format :: jsval
  img_sizeInBytes :: number
  img_createdAt :: int

definition new_Image ::
  "string \<Rightarrow> number \<Rightarrow> number \<Rightarrow> jsval \<Rightarrow> number \<Rightarrow> int \<Rightarrow> thrown + Image" where
  "new_Image ident width height format sizeInBytes now =
     (case validateDimensions width height of
        Inl e \<Rightarrow> Inl e
      | Inr _ \<Rightarrow>
     (case validateFormat format of
        Inl e \<Rightarrow> Inl e
      | Inr _ \<Rightarrow>
     (case validateFileSize sizeInBytes of
        Inl e \<Rightarrow> Inl e
      | Inr _ \<Rightarrow>
          Inr \<lparr>img_id = ident, img_width = width, img_height = height, img_format = format,
               img_sizeInBytes = sizeInBytes, img_createdAt = now\<rparr>)))"

definition canBeUpscaled :: "Image \<Rightarrow> bool" where
  "canBeUpscaled img = (js_lt (img_width img) (Fin 4000) \<and> js_lt (img_height img) (Fin 4000))"

definition getUpscaledDimensions :: "Image \<Rightarrow> number \<Rightarrow> thrown + ImageDimensions" where
  "getUpscaledDimensions img factor =
     (case validateUpscaleFactor factor of
        Inl e \<Rightarrow> Inl e
      | Inr _ \<Rightarrow>
          new_ImageDimensions (js_round (js_mul (img_width img) factor))
                              (js_round (js_mul (img_height img) factor)))"

section \<open>ProcessingJob\<close>

datatype ProcessingStatus = PENDING | IN_PROGRESS | COMPLETED | FAILED

record ProcessingJob =
  job_id :: string
  job_sourceImage :: Image
  job_status :: ProcessingStatus
  job_enhancedDimensions :: "ImageDimensions option"
  job_processingTimeMs :: "number option"
  job_errorMessage :: "string option"
  job_createdAt :: int
  job_completedAt :: "int option"

definition new_ProcessingJob :: "string \<Rightarrow> Image \<Rightarrow> int \<Rightarrow> ProcessingJob" where
  "new_ProcessingJob ident sourceImage now =
     \<lparr>job_id = ident, job_sourceImage = sourceImage, job_status = PENDING,
      job_enhancedDimensions = None, job_processingTimeMs = None, job_errorMessage = None,
      job_createdAt = now, job_completedAt = None\<rparr>"

definition isCompleted :: "ProcessingJob \<Rightarrow> bool" where
  "isCompleted j = (job_status j = COMPLETED)"

definition hasFailed :: "ProcessingJob \<Rightarrow> bool" where
  "hasFailed j = (job_status j = FAILED)"

text \<open>
  A method mutates the object and may throw: it returns what the call gives (\<open>Inl\<close> of
  the thrown error, or \<open>Inr ()\<close>) together with the object as the call leaves it. The
  assignments follow the guard, in the source's order.
\<close>

definition startProcessing :: "ProcessingJob \<Rightarrow> (thrown + unit) \<times> ProcessingJob" where
  "startProcessing j =
     (if job_status j \<noteq> PENDING
      then (Inl (Error ''Job can only be started from PENDING status''), j)
      else (Inr (), j\<lparr>job_status := IN_PROGRESS\<rparr>))"

definition completeSuccessfully ::
  "ImageDimensions \<Rightarrow> number \<Rightarrow> int \<Rightarrow> ProcessingJob \<Rightarrow> (thrown + unit) \<times> ProcessingJob" where
  "completeSuccessfully enhancedDims timeMs now j =
     (if job_status j \<noteq> IN_PROGRESS
      then (Inl (Error ''Job must be IN_PROGRESS to complete''), j)
      else (Inr (), j\<lparr>job_status := COMPLETED,
                        job_enhancedDimensions := Some enhancedDims,
                        job_processingTimeMs := Some timeMs,
                        job_completedAt := Some now\<rparr>))"

definition fail :: "string \<Rightarrow> int \<Rightarrow> ProcessingJob \<Rightarrow> (thrown + unit) \<times> ProcessingJob" where
  "fail message now j =
     (if job_status j \<noteq> IN_PROGRESS
      then (Inl (Error ''Job must be IN_PROGRESS to fail''), j)
      else (Inr (), j\<lparr>job_status := FAILED,
                        job_errorMessage := Some message,
                        job_completedAt := Some now\<rparr>))"

text \<open>
  The states a job can be in: those a caller reaches from the constructor by any sequence
  of calls of the three methods, catching what a call throws and going on.
\<close>

datatype job_call =
    StartProcessing
  | CompleteSuccessfully ImageDimensions number int
  | Fail string int

fun call :: "job_call \<Rightarrow> ProcessingJob \<Rightarrow> (thrown + unit) \<times> ProcessingJob" where
  "call StartProcessing j = startProcessing j"
| "call (CompleteSuccessfully d ms now) j = completeSuccessfully d ms now j"
| "call (Fail message now) j = fail message now j"

fun after_calls :: "job_call list \<Rightarrow> ProcessingJob \<Rightarrow> ProcessingJob" where
  "after_calls [] j = j"
| "after_calls (c # cs) j = after_calls cs (snd (call c j))"

section \<open>EnhanceImageUseCase\<close>

type_synonym buffer = "nat list"

datatype image_input = FileInput string buffer | StringInput string | BufferInput buffer

record LoadedImageData =
  data :: buffer
  width :: number
  height :: number
  format :: jsval
  sizeBytes :: number

record SuperResolutionResult =
  result_enhancedImageData :: buffer
  result_processingTimeMs :: number

record EnhanceImageRequest =
  imageInput :: image_input
  upscaleFactor :: "number option"

record EnhanceImageResponse =
  success :: bool
  enhancedImageData :: "buffer option"
  originalImage :: "Image option"
  job :: "ProcessingJob option"
  enhancedDimensions :: "ImageDimensions option"
  processingTimeMs :: number
  errorMessage :: "string option"

text \<open>
  What the use case does not decide: the system clock (the \<open>n\<close>-th reading taken by
  \<^verbatim>\<open>Date.now()\<close> or \<^verbatim>\<open>new Date()\<close>), the suffix \<^verbatim>\<open>Math.random().toString(36).substr(2, 9)\<close>
  of the \<open>n\<close>-th draw, and the two ports. A port call either resolves (\<open>Inr\<close>) or
  rejects (\<open>Inl\<close>); \<^verbatim>\<open>await\<close> turns a rejection into a throw.
\<close>

record env =
  clock :: "nat \<Rightarrow> int"
  random :: "nat \<Rightarrow> string"
  loadImage :: "image_input \<Rightarrow> thrown + LoadedImageData"
  enhanceImage :: "buffer \<Rightarrow> number \<Rightarrow> thrown + SuperResolutionResult"

datatype port_call = LoadImageCall image_input | EnhanceImageCall buffer number

text \<open>
  The state \<^verbatim>\<open>execute\<close> runs in: how many clock readings and random draws were taken,
  the port calls made so far (oldest first), and the two local variables that the
  \<^verbatim>\<open>catch\<close> block reads (\<open>None\<close> is \<^verbatim>\<open>undefined\<close>).
\<close>

record exec_state =
  ticks :: nat
  draws :: nat
  calls :: "port_call list"
  var_originalImage :: "Image option"
  var_job :: "ProcessingJob option"

type_synonym 'a prog = "exec_state \<Rightarrow> (thrown + 'a) \<times> exec_state"

definition ret :: "'a \<Rightarrow> 'a prog" where
  "ret x s = (Inr x, s)"

definition bind :: "'a prog \<Rightarrow> ('a \<Rightarrow> 'b prog) \<Rightarrow> 'b prog" where
  "bind m f s = (case m s of (Inl e, s') \<Rightarrow> (Inl e, s') | (Inr x, s') \<Rightarrow> f x s')"

definition try_catch :: "'a prog \<Rightarrow> (thrown \<Rightarrow> 'a prog) \<Rightarrow> 'a prog" where
  "try_catch m h s = (case m s of (Inl e, s') \<Rightarrow> h e s' | (Inr x, s') \<Rightarrow> (Inr x, s'))"

text \<open>Code without effects that may throw (the validators, \<open>getUpscaledDimensions\<close>).\<close>

definition lift :: "thrown + 'a \<Rightarrow> 'a prog" where
  "lift r s = (r, s)"

definition Date_now :: "env \<Rightarrow> int prog" where
  "Date_now E s = (Inr (clock E (ticks s)), s\<lparr>ticks := Suc (ticks s)\<rparr>)"

definition Math_random_suffix :: "env \<Rightarrow> string prog" where
  "Math_random_suffix E s = (Inr (random E (draws s)), s\<lparr>draws := Suc (draws s)\<rparr>)"

text \<open>
  A constructor or method that takes \<^verbatim>\<open>new Date()\<close> after its guards: a call that throws
  has taken no reading.
\<close>

definition dated :: "env \<Rightarrow> (int \<Rightarrow> thrown + 'a) \<Rightarrow> 'a prog" where
  "dated E f s =
     (case f (clock E (ticks s)) of
        Inl e \<Rightarrow> (Inl e, s)
      | Inr x \<Rightarrow> (Inr x, s\<lparr>ticks := Suc (ticks s)\<rparr>))"

definition await_loadImage :: "env \<Rightarrow> image_input \<Rightarrow> LoadedImageData prog" where
  "await_loadImage E input s = (loadImage E input, s\<lparr>calls := calls s @ [LoadImageCall input]\<rparr>)"

definition await_enhanceImage :: "env \<Rightarrow> buffer \<Rightarrow> number \<Rightarrow> SuperResolutionResult prog" where
  "await_enhanceImage E imageData factor s =
     (enhanceImage E imageData factor, s\<lparr>calls := calls s @ [EnhanceImageCall imageData factor]\<rparr>)"

definition set_originalImage :: "Image option \<Rightarrow> unit prog" where
  "set_originalImage v s = (Inr (), s\<lparr>var_originalImage := v\<rparr>)"

definition set_job :: "ProcessingJob option \<Rightarrow> unit prog" where
  "set_job v s = (Inr (), s\<lparr>var_job := v\<rparr>)"

definition get_originalImage :: "Image option prog" where
  "get_originalImage s = (Inr (var_originalImage s), s)"

definition get_job :: "ProcessingJob option prog" where
  "get_job s = (Inr (var_job s), s)"

text \<open>
  \<^verbatim>\<open>job.m(...)\<close> on the local variable: the object is updated in place. On \<^verbatim>\<open>undefined\<close>
  the call is a TypeError (the variable is assigned before every such call of the
  program). \<open>on_job_dated\<close> is for a method that takes \<^verbatim>\<open>new Date()\<close> after its guard.
  \<^verbatim>\<open>job?.m(...)\<close> skips the call on \<^verbatim>\<open>undefined\<close>.
\<close>

definition on_job :: "(ProcessingJob \<Rightarrow> (thrown + 'a) \<times> ProcessingJob) \<Rightarrow> 'a prog" where
  "on_job m s =
     (case var_job s of
        None \<Rightarrow> (Inl (Error ''Cannot read properties of undefined''), s)
      | Some j \<Rightarrow> (case m j of (r, j') \<Rightarrow> (r, s\<lparr>var_job := Some j'\<rparr>)))"

definition on_job_dated ::
  "env \<Rightarrow> (int \<Rightarrow> ProcessingJob \<Rightarrow> (thrown + 'a) \<times> ProcessingJob) \<Rightarrow> 'a prog" where
  "on_job_dated E m s =
     (case var_job s of
        None \<Rightarrow> (Inl (Error ''Cannot read properties of undefined''), s)
      | Some j \<Rightarrow>
          (case m (clock E (ticks s)) j of
             (Inl e, j') \<Rightarrow> (Inl e, s\<lparr>var_job := Some j'\<rparr>)
           | (Inr x, j') \<Rightarrow> (Inr x, s\<lparr>var_job := Some j', ticks := Suc (ticks s)\<rparr>)))"

definition optional_job_fail :: "env \<Rightarrow> string \<Rightarrow> unit prog" where
  "optional_job_fail E message s =
     (case var_job s of
        None \<Rightarrow> (Inr (), s)
      | Some j \<Rightarrow> on_job_dated E (fail message) s)"

text \<open>The decimal rendering of an integer in a template literal.\<close>

definition digit_char :: "nat \<Rightarrow> char" where
  "digit_char d = char_of (of_char CHR ''0'' + d)"

fun string_of_nat :: "nat \<Rightarrow> string" where
  "string_of_nat n =
     (if 10 \<le> n then string_of_nat (n div 10) @ [digit_char (n mod 10)]
      else [digit_char n])"

declare string_of_nat.simps [simp del]

definition string_of_int :: "int \<Rightarrow> string" where
  "string_of_int i = (if i < 0 then CHR ''-'' # string_of_nat (nat (- i)) else string_of_nat (nat i))"

definition generateImageId :: "env \<Rightarrow> string prog" where
  "generateImageId E =
     bind (Date_now E) (\<lambda>t.
     bind (Math_random_suffix E) (\<lambda>r.
     ret (''img-'' @ string_of_int t @ ''-'' @ r)))"

definition generateJobId :: "env \<Rightarrow> string prog" where
  "generateJobId E =
     bind (Date_now E) (\<lambda>t.
     bind (Math_random_suffix E) (\<lambda>r.
     ret (''job-'' @ string_of_int t @ ''-'' @ r)))"

text \<open>The body of the \<^verbatim>\<open>try\<close> block, statement by statement.\<close>

definition try_block :: "env \<Rightarrow> EnhanceImageRequest \<Rightarrow> int \<Rightarrow> number \<Rightarrow> EnhanceImageResponse prog" where
  "try_block E request startTime factor =
     bind (lift (validateUpscaleFactor factor)) (\<lambda>_.
     bind (await_loadImage E (imageInput request)) (\<lambda>loadedImage.
     bind (lift (validateDimensions (width loadedImage) (height loadedImage))) (\<lambda>_.
     bind (lift (validateFileSize (sizeBytes loadedImage))) (\<lambda>_.
     bind (lift (validateFormat (format loadedImage))) (\<lambda>_.
     bind (generateImageId E) (\<lambda>imageId.
     bind (dated E (new_Image imageId (width loadedImage) (height loadedImage)
                      (format loadedImage) (sizeBytes loadedImage))) (\<lambda>image.
     bind (set_originalImage (Some image)) (\<lambda>_.
     bind (generateJobId E) (\<lambda>jobId.
     bind (Date_now E) (\<lambda>created.
     bind (set_job (Some (new_ProcessingJob jobId image created))) (\<lambda>_.
     bind (on_job startProcessing) (\<lambda>_.
     bind (await_enhanceImage E (data loadedImage) factor) (\<lambda>result.
     bind (lift (getUpscaledDimensions image factor)) (\<lambda>enhancedDims.
     bind (Date_now E) (\<lambda>t.
     let totalProcessingTime = Fin (of_int (t - startTime)) in
     bind (on_job_dated E (completeSuccessfully enhancedDims totalProcessingTime)) (\<lambda>_.
     bind get_job (\<lambda>j.
     ret \<lparr>success = True,
          enhancedImageData = Some (result_enhancedImageData result),
          originalImage = Some image,
          job = j,
          enhancedDimensions = Some enhancedDims,
          processingTimeMs = totalProcessingTime,
          errorMessage = None\<rparr>)))))))))))))))))"

text \<open>The \<^verbatim>\<open>catch\<close> block; \<open>None\<close> is a field the response object does not have.\<close>

definition message_of :: "thrown \<Rightarrow> string" where
  "message_of e = (case e of Error m \<Rightarrow> m | NonError _ \<Rightarrow> ''Unknown error'')"

definition catch_block :: "env \<Rightarrow> int \<Rightarrow> thrown \<Rightarrow> EnhanceImageResponse prog" where
  "catch_block E startTime e =
     bind (Date_now E) (\<lambda>t.
     let processingTime = Fin (of_int (t - startTime));
         message = message_of e in
     bind (optional_job_fail E message) (\<lambda>_.
     bind get_originalImage (\<lambda>image.
     bind get_job (\<lambda>j.
     ret \<lparr>success = False,
          enhancedImageData = None,
          originalImage = image,
          job = j,
          enhancedDimensions = None,
          processingTimeMs = processingTime,
          errorMessage = Some message\<rparr>))))"

text \<open>
  \<^verbatim>\<open>execute\<close>: \<open>Inr\<close> of the response the promise resolves to, or \<open>Inl\<close> when the call
  itself throws (the promise rejects).
\<close>

definition upscaleFactor_or_default :: "EnhanceImageRequest \<Rightarrow> number" where
  "upscaleFactor_or_default request = (case upscaleFactor request of None \<Rightarrow> Fin 2 | Some f \<Rightarrow> f)"

definition execute :: "env \<Rightarrow> EnhanceImageRequest \<Rightarrow> EnhanceImageResponse prog" where
  "execute E request =
     bind (Date_now E) (\<lambda>startTime.
     let factor = upscaleFactor_or_default request in
     bind (set_originalImage None) (\<lambda>_.
     bind (set_job None) (\<lambda>_.
     try_catch (try_block E request startTime factor) (catch_block E startTime))))"

text \<open>
  The state in which the \<^verbatim>\<open>try\<close> block starts: the clock has been read once for
  \<open>startTime\<close>, and the two local variables are \<^verbatim>\<open>undefined\<close>.
\<close>

definition entry_state :: "exec_state \<Rightarrow> exec_state" where
  "entry_state s = s\<lparr>ticks := Suc (ticks s), var_originalImage := None, var_job := None\<rparr>"

section \<open>The specification's vocabulary\<close>

text \<open>
  The words the specification uses for a dimension: integral and within \<open>(0, 10000]\<close>,
  not positive (\<^verbatim>\<open><= 0\<close>), above the maximum (\<^verbatim>\<open>> 10000\<close>).
\<close>

definition integral_in_range :: "number \<Rightarrow> bool" where
  "integral_in_range x =
     (case x of Fin q \<Rightarrow> q = of_int \<lfloor>q\<rfloor> \<and> 0 < q \<and> q \<le> 10000 | _ \<Rightarrow> False)"

definition non_positive :: "number \<Rightarrow> bool" where
  "non_positive x = (case x of Fin q \<Rightarrow> q \<le> 0 | NegInf \<Rightarrow> True | _ \<Rightarrow> False)"

definition above_maximum :: "number \<Rightarrow> bool" where
  "above_maximum x = (case x of Fin q \<Rightarrow> 10000 < q | PosInf \<Rightarrow> True | _ \<Rightarrow> False)"

text \<open>
  Rounding to the nearest integer with a tie going away from zero, in the words of the
  specification of \<open>getUpscaledDimensions\<close>.
\<close>

definition round_half_away_from_zero :: "rat \<Rightarrow> int" where
  "round_half_away_from_zero q = (if 0 \<le> q then \<lfloor>q + 1 / 2\<rfloor> else - \<lfloor>- q + 1 / 2\<rfloor>)"

text \<open>The invariant of a job's fields, as the data model words it.\<close>

definition job_invariant :: "ProcessingJob \<Rightarrow> bool" where
  "job_invariant j =
     ((job_enhancedDimensions j \<noteq> None) = (job_status j = COMPLETED) \<and>
      (job_processingTimeMs j \<noteq> None) = (job_status j = COMPLETED) \<and>
      (job_errorMessage j \<noteq> None) = (job_status j = FAILED) \<and>
      (job_completedAt j \<noteq> None) = (job_status j = COMPLETED \<or> job_status j = FAILED))"

section \<open>Sample values\<close>

text \<open>
  The image and the job of the repository's tests, an image too wide for
  \<open>canBeUpscaled\<close>, a 3 by 3 image, and one whose axes leave the allowed range when
  scaled by 4.
\<close>

definition sample_image :: Image where
  "sample_image =
     \<lparr>img_id = ''img-123'', img_width = Fin 1920, img_height = Fin 1080,
      img_format = JStr ''jpeg'', img_sizeInBytes = Fin 500000, img_createdAt = 0\<rparr>"

definition sample_job :: ProcessingJob where
  "sample_job = new_ProcessingJob ''job-456'' sample_image 0"

definition wide_image :: Image where
  "wide_image =
     \<lparr>img_id = ''img-2'', img_width = Fin 5000, img_height = Fin 2000,
      img_format = JStr ''png'', img_sizeInBytes = Fin 2000000, img_createdAt = 0\<rparr>"

definition tiny_image :: Image where
  "tiny_image =
     \<lparr>img_id = ''img-3'', img_width = Fin 3, img_height = Fin 3,
      img_format = JStr ''png'', img_sizeInBytes = Fin 100, img_createdAt = 0\<rparr>"

definition oversized_image :: Image where
  "oversized_image =
     \<lparr>img_id = ''img-1'', img_width = Fin 5000, img_height = Fin 5000,
      img_format = JStr ''jpeg'', img_sizeInBytes = Fin 2000000, img_createdAt = 0\<rparr>"

text \<open>
  The scenario of the use case's tests: a request without a factor, a loader that
  resolves to an 800 by 600 jpeg of 50000 bytes, and a resolver that succeeds
  (\<open>sample_env\<close>) or rejects with ``AI processing failed'' (\<open>failing_env\<close>).
\<close>

definition sample_loaded :: LoadedImageData where
  "sample_loaded =
     \<lparr>data = [1, 2, 3], width = Fin 800, height = Fin 600, format = JStr ''jpeg'',
      sizeBytes = Fin 50000\<rparr>"

definition sample_result :: SuperResolutionResult where
  "sample_result = \<lparr>result_enhancedImageData = [4, 5, 6], result_processingTimeMs = Fin 1500\<rparr>"

definition sample_env :: env where
  "sample_env =
     \<lparr>clock = (\<lambda>n. 1000 + 10 * int n), random = (\<lambda>n. ''k3x9q0zab''),
      loadImage = (\<lambda>input. Inr sample_loaded),
      enhanceImage = (\<lambda>imageData factor. Inr sample_result)\<rparr>"

definition failing_env :: env where
  "failing_env =
     \<lparr>clock = (\<lambda>n. 1000 + 10 * int n), random = (\<lambda>n. ''k3x9q0zab''),
      loadImage = (\<lambda>input. Inr sample_loaded),
      enhanceImage = (\<lambda>imageData factor. Inl (Error ''AI processing failed''))\<rparr>"

definition sample_request :: EnhanceImageRequest where
  "sample_request = \<lparr>imageInput = StringInput ''test.jpg'', upscaleFactor = None\<rparr>"

definition initial_state :: exec_state where
  "initial_state = \<lparr>ticks = 0, draws = 0, calls = [], var_originalImage = None, var_job = None\<rparr>"

section \<open>Validation: file size and dimensions\<close>

lemma js_gt_Fin: "js_gt x (Fin c) = (case x of Fin q \<Rightarrow> c < q | PosInf \<Rightarrow> True | _ \<Rightarrow> False)"
  by (cases x) (simp_all add: js_gt_def)

lemma js_le_Fin: "js_le x (Fin c) = (case x of Fin q \<Rightarrow> q \<le> c | NegInf \<Rightarrow> True | _ \<Rightarrow> False)"
  by (cases x) simp_all

lemma validateFileSize_Fin:
  "validateFileSize (Fin q) =
     (if q \<le> 0 then Inl (Error ''File size must be positive'')
      else if 52428800 < q then Inl (Error ''File size exceeds maximum allowed (50MB)'')
      else Inr ())"
  by (simp add: validateFileSize_def js_gt_def maxSizeInBytes_def)

text \<open>
  Claim C5 as stated: \<open>validateFileSize\<close> succeeds exactly on the sizes from 1 to 52,428,800,
  and every size below 1 is rejected. The parameter is a \<^verbatim>\<open>number\<close> and the function has
  no integrality check: half a byte is below 1 and is accepted.
\<close>

theorem validateFileSize_half_counterexample:
  "validateFileSize (Fin (1 / 2)) = Inr () \<and> \<not> (1 \<le> (1 / 2 :: rat))"
  by (simp add: validateFileSize_Fin)

text \<open>
  Claim C5, amended: for every finite size and for the two infinities, \<open>validateFileSize\<close>
  (and with it the file-size check of the \<open>Image\<close> constructor) succeeds if and only if
  \<open>0 < size \<le> 52,428,800\<close>; the upper bound is inclusive; a size \<open>\<le> 0\<close> is rejected with
  the error ``File size must be positive'' and a size above the bound with ``File size
  exceeds maximum allowed (50MB)''. For an integral size the condition is
  \<open>1 \<le> size \<le> 52,428,800\<close>.
\<close>

theorem validateFileSize_range:
  "(validateFileSize (Fin q) = Inr () \<longleftrightarrow> 0 < q \<and> q \<le> 52428800) \<and>
   (validateFileSize (Fin (of_int n)) = Inr () \<longleftrightarrow> 1 \<le> n \<and> n \<le> 52428800) \<and>
   validateFileSize (Fin 52428800) = Inr () \<and>
   (q \<le> 0 \<longrightarrow> validateFileSize (Fin q) = Inl (Error ''File size must be positive'')) \<and>
   (52428800 < q \<longrightarrow>
      validateFileSize (Fin q) = Inl (Error ''File size exceeds maximum allowed (50MB)'')) \<and>
   validateFileSize NegInf = Inl (Error ''File size must be positive'') \<and>
   validateFileSize PosInf = Inl (Error ''File size exceeds maximum allowed (50MB)'') \<and>
   (validateDimensions w h = Inr () \<longrightarrow> validateFormat f = Inr () \<longrightarrow>
      ((\<exists>img. new_Image i w h f (Fin q) t = Inr img) \<longleftrightarrow> 0 < q \<and> q \<le> 52428800))"
proof -
  have int_iff:
    "(0 < (of_int n :: rat) \<and> (of_int n :: rat) \<le> 52428800) \<longleftrightarrow> (1 \<le> n \<and> n \<le> 52428800)"
  proof -
    have a: "(0 < (of_int n :: rat)) = (1 \<le> n)"
      by (simp add: int_one_le_iff_zero_less)
    have b: "((of_int n :: rat) \<le> of_int 52428800) = (n \<le> 52428800)"
      by (rule of_int_le_iff)
    show ?thesis using a b by simp
  qed
  have c1: "validateFileSize (Fin q) = Inr () \<longleftrightarrow> 0 < q \<and> q \<le> 52428800"
    by (auto simp: validateFileSize_Fin)
  have c2: "validateFileSize (Fin (of_int n)) = Inr () \<longleftrightarrow> 1 \<le> n \<and> n \<le> 52428800"
    using int_iff by (auto simp: validateFileSize_Fin)
  have c3: "validateFileSize (Fin 52428800) = Inr ()"
    by (simp add: validateFileSize_Fin)
  have c6: "validateFileSize NegInf = Inl (Error ''File size must be positive'')"
    by (simp add: validateFileSize_def)
  have c7: "validateFileSize PosInf = Inl (Error ''File size exceeds maximum allowed (50MB)'')"
    by (simp add: validateFileSize_def js_gt_def)
  have c8: "validateDimensions w h = Inr () \<longrightarrow> validateFormat f = Inr () \<longrightarrow>
      ((\<exists>img. new_Image i w h f (Fin q) t = Inr img) \<longleftrightarrow> 0 < q \<and> q \<le> 52428800)"
    by (auto simp: new_Image_def validateFileSize_Fin)
  show ?thesis using c1 c2 c3 c6 c7 c8 by (simp add: validateFileSize_Fin)
qed

text \<open>The amended claim at concrete sizes: 1, the bound, one more than the bound, 0 and -1000.\<close>

theorem validateFileSize_range_witness:
  "validateFileSize (Fin 1) = Inr () \<and>
   validateFileSize (Fin 52428800) = Inr () \<and>
   validateFileSize (Fin 52428801) = Inl (Error ''File size exceeds maximum allowed (50MB)'') \<and>
   validateFileSize (Fin 0) = Inl (Error ''File size must be positive'') \<and>
   validateFileSize (Fin (- 1000)) = Inl (Error ''File size must be positive'')"
proof -
  have 1: "validateFileSize (Fin 1) = Inr ()"
    using validateFileSize_range [where q = 1] by simp
  have 2: "validateFileSize (Fin 52428800) = Inr ()"
    using validateFileSize_range [where q = 52428800] by simp
  have 3: "validateFileSize (Fin 52428801) = Inl (Error ''File size exceeds maximum allowed (50MB)'')"
    using validateFileSize_range [where q = 52428801] by simp
  have 4: "validateFileSize (Fin 0) = Inl (Error ''File size must be positive'')"
    using validateFileSize_range [where q = 0] by simp
  have 5: "validateFileSize (Fin (- 1000)) = Inl (Error ''File size must be positive'')"
    using validateFileSize_range [where q = "- 1000"] by simp
  show ?thesis using 1 2 3 4 5 by simp
qed

text \<open>
  Not a number is neither \<^verbatim>\<open><= 0\<close> nor \<^verbatim>\<open>> 52428800\<close>: \<open>validateFileSize\<close> has no
  \<^verbatim>\<open>Number.isFinite\<close> test (\<open>validateUpscaleFactor\<close> has one) and lets it through.
\<close>

lemma validateFileSize_NaN: "validateFileSize NaN = Inr ()"
  by (simp add: validateFileSize_def js_gt_def)

lemma validateDimensions_cases:
  "validateDimensions w h =
     (if non_positive w \<or> non_positive h
      then Inl (Error ''Image dimensions must be positive numbers'')
      else if \<not> isInteger w \<or> \<not> isInteger h
      then Inl (Error ''Image dimensions must be integers'')
      else if above_maximum w \<or> above_maximum h
      then Inl (Error ''Image dimensions exceed maximum allowed size (10000px)'')
      else Inr ())"
  by (simp add: validateDimensions_def js_le_Fin js_gt_Fin non_positive_def above_maximum_def)

lemma integral_in_range_iff:
  "integral_in_range x \<longleftrightarrow> \<not> non_positive x \<and> isInteger x \<and> \<not> above_maximum x"
  by (cases x) (auto simp: integral_in_range_def non_positive_def above_maximum_def)

text \<open>
  Claim C6: for every pair of numbers, \<open>validateDimensions\<close> succeeds if and only if both
  are integral and within \<open>(0, 10000]\<close>. When it fails, the error follows a fixed
  priority, whatever else is violated: a value \<open>\<le> 0\<close> gives ``must be positive numbers'';
  otherwise a value that is not an integer gives ``must be integers''; otherwise a value
  above 10000 gives ``exceed maximum allowed size''.
\<close>

theorem validateDimensions_order:
  "(validateDimensions w h = Inr () \<longleftrightarrow> integral_in_range w \<and> integral_in_range h) \<and>
   (non_positive w \<or> non_positive h \<longrightarrow>
      validateDimensions w h = Inl (Error ''Image dimensions must be positive numbers'')) \<and>
   (\<not> non_positive w \<and> \<not> non_positive h \<and> (\<not> isInteger w \<or> \<not> isInteger h) \<longrightarrow>
      validateDimensions w h = Inl (Error ''Image dimensions must be integers'')) \<and>
   (\<not> non_positive w \<and> \<not> non_positive h \<and> isInteger w \<and> isInteger h \<and>
    (above_maximum w \<or> above_maximum h) \<longrightarrow>
      validateDimensions w h =
        Inl (Error ''Image dimensions exceed maximum allowed size (10000px)''))"
proof -
  have a: "validateDimensions w h = Inr () \<longleftrightarrow> integral_in_range w \<and> integral_in_range h"
    unfolding integral_in_range_iff validateDimensions_cases by auto
  show ?thesis
    unfolding a by (simp add: validateDimensions_cases)
qed

text \<open>
  Claim C6 at concrete pairs, among them pairs that break several rules at once:
  \<open>(-2.5, 20000)\<close> is reported as not positive, \<open>(10000.5, 20000)\<close> as not integral.
\<close>

theorem validateDimensions_order_witness:
  "validateDimensions (Fin 1920) (Fin 1080) = Inr () \<and>
   validateDimensions (Fin 10000) (Fin 1) = Inr () \<and>
   validateDimensions (Fin (- 5 / 2)) (Fin 20000) =
     Inl (Error ''Image dimensions must be positive numbers'') \<and>
   validateDimensions (Fin (20001 / 2)) (Fin 20000) =
     Inl (Error ''Image dimensions must be integers'') \<and>
   validateDimensions NaN (Fin 0) = Inl (Error ''Image dimensions must be positive numbers'') \<and>
   validateDimensions PosInf (Fin 1) = Inl (Error ''Image dimensions must be integers'') \<and>
   validateDimensions (Fin 10001) (Fin 1080) =
     Inl (Error ''Image dimensions exceed maximum allowed size (10000px)'')"
proof -
  have 1: "validateDimensions (Fin 1920) (Fin 1080) = Inr ()"
    using validateDimensions_order [of "Fin 1920" "Fin 1080"]
    by (simp add: integral_in_range_def)
  have 2: "validateDimensions (Fin 10000) (Fin 1) = Inr ()"
    using validateDimensions_order [of "Fin 10000" "Fin 1"]
    by (simp add: integral_in_range_def)
  have 3: "validateDimensions (Fin (- 5 / 2)) (Fin 20000) =
      Inl (Error ''Image dimensions must be positive numbers'')"
    using validateDimensions_order [of "Fin (- 5 / 2)" "Fin 20000"]
    by (simp add: non_positive_def)
  have fl: "\<lfloor>20001 / 2 :: rat\<rfloor> = 10000"
    by (simp add: floor_eq_iff)
  have ni: "\<not> isInteger (Fin (20001 / 2))"
    unfolding isInteger.simps fl by simp
  have 4: "validateDimensions (Fin (20001 / 2)) (Fin 20000) =
      Inl (Error ''Image dimensions must be integers'')"
    using validateDimensions_order [of "Fin (20001 / 2)" "Fin 20000"] ni
    by (simp add: non_positive_def del: isInteger.simps)
  have 5: "validateDimensions NaN (Fin 0) = Inl (Error ''Image dimensions must be positive numbers'')"
    using validateDimensions_order [of NaN "Fin 0"]
    by (simp add: non_positive_def)
  have 6: "validateDimensions PosInf (Fin 1) = Inl (Error ''Image dimensions must be integers'')"
    using validateDimensions_order [of PosInf "Fin 1"]
    by (simp add: non_positive_def)
  have 7: "validateDimensions (Fin 10001) (Fin 1080) =
      Inl (Error ''Image dimensions exceed maximum allowed size (10000px)'')"
    using validateDimensions_order [of "Fin 10001" "Fin 1080"]
    by (simp add: non_positive_def above_maximum_def)
  show ?thesis using 1 2 3 4 5 6 7 by simp
qed

section \<open>Validation: format\<close>

lemma join_supportedFormats: "join '', '' supportedFormats = ''jpeg, jpg, png, webp, bmp''"
  by (simp add: supportedFormats_def)

lemma lower_PNG: "toLowerCase ''PNG'' = ''png''"
  by code_simp

lemma lower_JpEg: "toLowerCase ''JpEg'' = ''jpeg''"
  by code_simp

lemma lower_gif: "toLowerCase ''GIF'' = ''gif''"
  by code_simp

text \<open>
  Claim C7: for every value, \<open>validateFormat\<close> succeeds if and only if the value is a
  non-empty string whose lower-case form is one of jpeg, jpg, png, webp, bmp; for a
  non-empty string that is not supported the message quotes the input as it was given,
  followed by the whole list in the order jpeg, jpg, png, webp, bmp; and an \<open>Image\<close>
  built with a valid format keeps the format exactly as given.
\<close>

theorem validateFormat_supported:
  "(validateFormat v = Inr () \<longleftrightarrow>
      (\<exists>s. v = JStr s \<and> s \<noteq> [] \<and> toLowerCase s \<in> {''jpeg'', ''jpg'', ''png'', ''webp'', ''bmp''})) \<and>
   (s \<noteq> [] \<and> toLowerCase s \<notin> {''jpeg'', ''jpg'', ''png'', ''webp'', ''bmp''} \<longrightarrow>
      validateFormat (JStr s) =
        Inl (Error (''Unsupported image format: '' @ s @ ''. Supported: jpeg, jpg, png, webp, bmp''))) \<and>
   (validateFormat (JStr s) = Inr () \<and> new_Image i w h (JStr s) sz t = Inr img \<longrightarrow>
      img_format img = JStr s)"
proof -
  have set_eq: "set supportedFormats = {''jpeg'', ''jpg'', ''png'', ''webp'', ''bmp''}"
    by (simp add: supportedFormats_def)
  have a: "validateFormat v = Inr () \<longleftrightarrow>
      (\<exists>s. v = JStr s \<and> s \<noteq> [] \<and> toLowerCase s \<in> {''jpeg'', ''jpg'', ''png'', ''webp'', ''bmp''})"
    by (cases v) (simp_all add: set_eq)
  have b: "s \<noteq> [] \<and> toLowerCase s \<notin> {''jpeg'', ''jpg'', ''png'', ''webp'', ''bmp''} \<longrightarrow>
      validateFormat (JStr s) =
        Inl (Error (''Unsupported image format: '' @ s @ ''. Supported: jpeg, jpg, png, webp, bmp''))"
    by (simp add: set_eq join_supportedFormats)
  have c: "validateFormat (JStr s) = Inr () \<and> new_Image i w h (JStr s) sz t = Inr img \<longrightarrow>
      img_format img = JStr s"
    by (auto simp: new_Image_def split: sum.splits)
  show ?thesis using a b c by blast
qed

text \<open>
  Claim C7 at concrete values: upper and mixed case are accepted and kept, \<open>GIF\<close> is
  quoted in upper case in the message, the empty string and \<^verbatim>\<open>null\<close> are rejected.
\<close>

theorem validateFormat_supported_witness:
  "validateFormat (JStr ''PNG'') = Inr () \<and>
   validateFormat (JStr ''GIF'') =
     Inl (Error ''Unsupported image format: GIF. Supported: jpeg, jpg, png, webp, bmp'') \<and>
   validateFormat (JStr '''') \<noteq> Inr () \<and>
   validateFormat JNull \<noteq> Inr () \<and>
   new_Image ''img-1'' (Fin 1920) (Fin 1080) (JStr ''JpEg'') (Fin 500000) 0 =
     Inr \<lparr>img_id = ''img-1'', img_width = Fin 1920, img_height = Fin 1080,
          img_format = JStr ''JpEg'', img_sizeInBytes = Fin 500000, img_createdAt = 0\<rparr> \<and>
   img_format \<lparr>img_id = ''img-1'', img_width = Fin 1920, img_height = Fin 1080,
          img_format = JStr ''JpEg'', img_sizeInBytes = Fin 500000, img_createdAt = 0\<rparr> = JStr ''JpEg''"
proof -
  have 1: "validateFormat (JStr ''PNG'') = Inr ()"
    using validateFormat_supported [where v = "JStr ''PNG''"] lower_PNG by simp
  have 2: "validateFormat (JStr ''GIF'') =
     Inl (Error ''Unsupported image format: GIF. Supported: jpeg, jpg, png, webp, bmp'')"
    using validateFormat_supported [where s = "''GIF''"] lower_gif by simp
  have 3: "validateFormat (JStr '''') \<noteq> Inr ()"
    using validateFormat_supported [where v = "JStr ''''"] by simp
  have 4: "validateFormat JNull \<noteq> Inr ()"
    using validateFormat_supported [where v = JNull] by simp
  have 5: "validateFormat (JStr ''JpEg'') = Inr ()"
    using validateFormat_supported [where v = "JStr ''JpEg''"] lower_JpEg by simp
  have 6: "new_Image ''img-1'' (Fin 1920) (Fin 1080) (JStr ''JpEg'') (Fin 500000) 0 =
     Inr \<lparr>img_id = ''img-1'', img_width = Fin 1920, img_height = Fin 1080,
          img_format = JStr ''JpEg'', img_sizeInBytes = Fin 500000, img_createdAt = 0\<rparr>"
    using 5 by (simp add: new_Image_def validateDimensions_def js_gt_def validateFileSize_Fin)
  show ?thesis using 1 2 3 4 6 by simp
qed

section \<open>ProcessingJob: the state machine\<close>

text \<open>
  Claim C3: for every job and every sequence of calls made on it, in the state the
  sequence leaves: from PENDING only \<open>startProcessing\<close> succeeds, and reaches IN_PROGRESS;
  from IN_PROGRESS only \<open>completeSuccessfully\<close> and \<open>fail\<close> succeed, and reach COMPLETED
  and FAILED; from COMPLETED and from FAILED each of the three calls throws its
  invalid-transition error; and \<open>isCompleted\<close> and \<open>hasFailed\<close> are never both true.
\<close>

theorem job_transitions:
  "(let j = after_calls cs j0 in
     (job_status j = PENDING \<longrightarrow>
        fst (startProcessing j) = Inr () \<and>
        job_status (snd (startProcessing j)) = IN_PROGRESS \<and>
        fst (completeSuccessfully d ms now j) = Inl (Error ''Job must be IN_PROGRESS to complete'') \<and>
        fst (fail m now j) = Inl (Error ''Job must be IN_PROGRESS to fail'')) \<and>
     (job_status j = IN_PROGRESS \<longrightarrow>
        fst (startProcessing j) = Inl (Error ''Job can only be started from PENDING status'') \<and>
        fst (completeSuccessfully d ms now j) = Inr () \<and>
        job_status (snd (completeSuccessfully d ms now j)) = COMPLETED \<and>
        fst (fail m now j) = Inr () \<and>
        job_status (snd (fail m now j)) = FAILED) \<and>
     (job_status j = COMPLETED \<or> job_status j = FAILED \<longrightarrow>
        fst (startProcessing j) = Inl (Error ''Job can only be started from PENDING status'') \<and>
        fst (completeSuccessfully d ms now j) = Inl (Error ''Job must be IN_PROGRESS to complete'') \<and>
        fst (fail m now j) = Inl (Error ''Job must be IN_PROGRESS to fail'')) \<and>
     \<not> (isCompleted j \<and> hasFailed j))"
  by (auto simp: Let_def startProcessing_def completeSuccessfully_def fail_def
      isCompleted_def hasFailed_def)

lemmas job_eval = sample_job_def new_ProcessingJob_def startProcessing_def
  completeSuccessfully_def fail_def isCompleted_def hasFailed_def

text \<open>
  Claim C3 on the job of the tests: as constructed (PENDING), after \<open>startProcessing\<close>
  (IN_PROGRESS), and after a failure (FAILED).
\<close>

theorem job_transitions_witness:
  "job_status sample_job = PENDING \<and>
   fst (startProcessing sample_job) = Inr () \<and>
   job_status (snd (startProcessing sample_job)) = IN_PROGRESS \<and>
   fst (fail ''too early'' 5 sample_job) = Inl (Error ''Job must be IN_PROGRESS to fail'') \<and>
   job_status (after_calls [StartProcessing] sample_job) = IN_PROGRESS \<and>
   fst (startProcessing (after_calls [StartProcessing] sample_job)) =
     Inl (Error ''Job can only be started from PENDING status'') \<and>
   job_status (snd (fail ''GPU memory exceeded'' 7 (after_calls [StartProcessing] sample_job))) = FAILED \<and>
   job_status (after_calls [StartProcessing, Fail ''GPU memory exceeded'' 7] sample_job) = FAILED \<and>
   fst (completeSuccessfully \<lparr>dim_width = Fin 3840, dim_height = Fin 2160\<rparr> (Fin 2500) 9
          (after_calls [StartProcessing, Fail ''GPU memory exceeded'' 7] sample_job)) =
     Inl (Error ''Job must be IN_PROGRESS to complete'')"
proof -
  have p: "job_status (after_calls [] sample_job) = PENDING"
    by (simp add: job_eval)
  have i: "job_status (after_calls [StartProcessing] sample_job) = IN_PROGRESS"
    by (simp add: job_eval)
  have f: "job_status (after_calls [StartProcessing, Fail ''GPU memory exceeded'' 7] sample_job) = FAILED"
    by (simp add: job_eval)
  have 1: "fst (startProcessing sample_job) = Inr () \<and>
      job_status (snd (startProcessing sample_job)) = IN_PROGRESS \<and>
      fst (fail ''too early'' 5 sample_job) = Inl (Error ''Job must be IN_PROGRESS to fail'')"
    using job_transitions [of "[]" sample_job _ _ 5 "''too early''"] p
    by (simp add: Let_def)
  have 2: "fst (startProcessing (after_calls [StartProcessing] sample_job)) =
      Inl (Error ''Job can only be started from PENDING status'') \<and>
      job_status (snd (fail ''GPU memory exceeded'' 7 (after_calls [StartProcessing] sample_job))) = FAILED"
    using job_transitions [of "[StartProcessing]" sample_job _ _ 7 "''GPU memory exceeded''"] i
    by (simp add: Let_def)
  have 3: "fst (completeSuccessfully \<lparr>dim_width = Fin 3840, dim_height = Fin 2160\<rparr> (Fin 2500) 9
          (after_calls [StartProcessing, Fail ''GPU memory exceeded'' 7] sample_job)) =
     Inl (Error ''Job must be IN_PROGRESS to complete'')"
    using job_transitions [of "[StartProcessing, Fail ''GPU memory exceeded'' 7]" sample_job
        "\<lparr>dim_width = Fin 3840, dim_height = Fin 2160\<rparr>" "Fin 2500" 9] f
    by (simp add: Let_def)
  show ?thesis using p i f 1 2 3 by simp
qed

section \<open>ProcessingJob: the invariant of the fields\<close>

lemma job_invariant_new: "job_invariant (new_ProcessingJob i img t)"
  by (simp add: job_invariant_def new_ProcessingJob_def)

lemma job_invariant_call: "job_invariant j \<Longrightarrow> job_invariant (snd (call c j))"
  by (cases c) (auto simp: job_invariant_def startProcessing_def completeSuccessfully_def fail_def)

lemma job_invariant_after_calls: "job_invariant j \<Longrightarrow> job_invariant (after_calls cs j)"
  by (induction cs arbitrary: j) (simp_all add: job_invariant_call)

text \<open>
  Claim C4: in every state a job reaches from its constructor by any sequence of calls,
  rejected ones included, the enhanced dimensions and the processing time are set if and
  only if the status is COMPLETED, the error message if and only if it is FAILED, and the
  completion timestamp if and only if it is COMPLETED or FAILED.
\<close>

theorem job_fields_invariant:
  "(let j = after_calls cs (new_ProcessingJob i img t) in
     (job_enhancedDimensions j \<noteq> None) = (job_status j = COMPLETED) \<and>
     (job_processingTimeMs j \<noteq> None) = (job_status j = COMPLETED) \<and>
     (job_errorMessage j \<noteq> None) = (job_status j = FAILED) \<and>
     (job_completedAt j \<noteq> None) = (job_status j = COMPLETED \<or> job_status j = FAILED))"
  using job_invariant_after_calls [OF job_invariant_new, of cs i img t]
  by (simp add: job_invariant_def Let_def)

text \<open>
  Claim C4 on a run with a rejected call in the middle: start, start again (rejected),
  complete, then fail (rejected).
\<close>

theorem job_fields_invariant_witness:
  "job_status (after_calls [StartProcessing, StartProcessing,
        CompleteSuccessfully \<lparr>dim_width = Fin 3840, dim_height = Fin 2160\<rparr> (Fin 2500) 9,
        Fail ''late'' 11] sample_job) = COMPLETED \<and>
   job_enhancedDimensions (after_calls [StartProcessing, StartProcessing,
        CompleteSuccessfully \<lparr>dim_width = Fin 3840, dim_height = Fin 2160\<rparr> (Fin 2500) 9,
        Fail ''late'' 11] sample_job) \<noteq> None \<and>
   job_processingTimeMs (after_calls [StartProcessing, StartProcessing,
        CompleteSuccessfully \<lparr>dim_width = Fin 3840, dim_height = Fin 2160\<rparr> (Fin 2500) 9,
        Fail ''late'' 11] sample_job) \<noteq> None \<and>
   job_errorMessage (after_calls [StartProcessing, StartProcessing,
        CompleteSuccessfully \<lparr>dim_width = Fin 3840, dim_height = Fin 2160\<rparr> (Fin 2500) 9,
        Fail ''late'' 11] sample_job) = None \<and>
   job_completedAt (after_calls [StartProcessing, StartProcessing,
        CompleteSuccessfully \<lparr>dim_width = Fin 3840, dim_height = Fin 2160\<rparr> (Fin 2500) 9,
        Fail ''late'' 11] sample_job) \<noteq> None"
proof -
  let ?cs = "[StartProcessing, StartProcessing,
        CompleteSuccessfully \<lparr>dim_width = Fin 3840, dim_height = Fin 2160\<rparr> (Fin 2500) 9,
        Fail ''late'' 11]"
  have s: "job_status (after_calls ?cs sample_job) = COMPLETED"
    by (simp add: job_eval)
  show ?thesis
    using job_fields_invariant [of ?cs "''job-456''" sample_image 0] s
    by (simp add: Let_def sample_job_def)
qed

section \<open>ProcessingJob: a rejected call changes nothing\<close>

text \<open>
  Claim C10: in every state a job reaches from its constructor, a call of
  \<open>startProcessing\<close>, \<open>completeSuccessfully\<close> or \<open>fail\<close> that throws leaves the object as
  it was: status, enhanced dimensions, processing time, error message, creation and
  completion timestamps.
\<close>

theorem rejected_call_unchanged:
  "fst (call c (after_calls cs (new_ProcessingJob i img t))) = Inl e \<Longrightarrow>
   (let j = after_calls cs (new_ProcessingJob i img t); j' = snd (call c j) in
      j' = j \<and>
      job_status j' = job_status j \<and>
      job_enhancedDimensions j' = job_enhancedDimensions j \<and>
      job_processingTimeMs j' = job_processingTimeMs j \<and>
      job_errorMessage j' = job_errorMessage j \<and>
      job_createdAt j' = job_createdAt j \<and>
      job_completedAt j' = job_completedAt j)"
  by (cases c) (auto simp: Let_def startProcessing_def completeSuccessfully_def fail_def split: if_splits)

text \<open>
  Claim C10 on a completed job: a later \<open>fail\<close> throws, and the job is the completed
  job still.
\<close>

theorem rejected_call_unchanged_witness:
  "fst (call (Fail ''late'' 11) (after_calls [StartProcessing,
        CompleteSuccessfully \<lparr>dim_width = Fin 3840, dim_height = Fin 2160\<rparr> (Fin 2500) 9]
        sample_job)) = Inl (Error ''Job must be IN_PROGRESS to fail'') \<and>
   snd (call (Fail ''late'' 11) (after_calls [StartProcessing,
        CompleteSuccessfully \<lparr>dim_width = Fin 3840, dim_height = Fin 2160\<rparr> (Fin 2500) 9]
        sample_job)) =
     after_calls [StartProcessing,
        CompleteSuccessfully \<lparr>dim_width = Fin 3840, dim_height = Fin 2160\<rparr> (Fin 2500) 9]
        sample_job \<and>
   job_status (snd (call (Fail ''late'' 11) (after_calls [StartProcessing,
        CompleteSuccessfully \<lparr>dim_width = Fin 3840, dim_height = Fin 2160\<rparr> (Fin 2500) 9]
        sample_job))) = COMPLETED"
proof -
  let ?cs = "[StartProcessing,
        CompleteSuccessfully \<lparr>dim_width = Fin 3840, dim_height = Fin 2160\<rparr> (Fin 2500) 9]"
  have r: "fst (call (Fail ''late'' 11) (after_calls ?cs (new_ProcessingJob ''job-456'' sample_image 0))) =
      Inl (Error ''Job must be IN_PROGRESS to fail'')"
    by (simp add: job_eval)
  have s: "job_status (after_calls ?cs (new_ProcessingJob ''job-456'' sample_image 0)) = COMPLETED"
    by (simp add: job_eval)
  show ?thesis
    using rejected_call_unchanged [OF r] r s
    by (simp add: Let_def sample_job_def)
qed

section \<open>The product of doubles on small values\<close>

text \<open>
  Between 1 and \<open>2 ^ 53\<close> every integer is a double, so rounding a rational to a double
  stays between its floor and its ceiling, and is exact on an integer.
\<close>

lemma round_half_even_bounds: "\<lfloor>m\<rfloor> \<le> round_half_even m \<and> round_half_even m \<le> \<lceil>m\<rceil>"
proof -
  have lo: "\<lfloor>m\<rfloor> \<le> \<lceil>m\<rceil>" by (rule floor_le_ceiling)
  have step: "\<lfloor>m\<rfloor> + 1 \<le> \<lceil>m\<rceil>" if "0 < m - of_int \<lfloor>m\<rfloor>"
  proof -
    have "of_int \<lfloor>m\<rfloor> < m" using that by simp
    then have "\<lfloor>m\<rfloor> < \<lceil>m\<rceil>" by (simp only: less_ceiling_iff)
    then show ?thesis by simp
  qed
  show ?thesis
  proof (cases "m - of_int \<lfloor>m\<rfloor> < 1 / 2")
    case True
    then show ?thesis using lo by (simp add: round_half_even_def Let_def)
  next
    case False
    then have "0 < m - of_int \<lfloor>m\<rfloor>" by simp
    then have "\<lfloor>m\<rfloor> + 1 \<le> \<lceil>m\<rceil>" by (rule step)
    then show ?thesis using lo False by (simp add: round_half_even_def Let_def)
  qed
qed

lemma ilog2_range:
  assumes "1 \<le> x" and "x < 2 ^ 53"
  shows "0 \<le> ilog2 x \<and> ilog2 x \<le> 52"
proof -
  let ?n = "nat \<lfloor>x\<rfloor>"
  have n_pos: "0 < ?n" using assms(1) by simp
  have "\<lfloor>x\<rfloor> < 2 ^ 53" using assms(2) by (simp add: floor_less_iff)
  then have "?n < 2 ^ 53" using n_pos by (simp add: nat_less_iff)
  then have up: "floorlog 2 ?n \<le> 53" by (intro floorlog_leI) simp_all
  have "floorlog 2 ?n \<noteq> 0" using n_pos by (simp add: floorlog_eq_zero_iff)
  then have lo: "1 \<le> floorlog 2 ?n" by simp
  show ?thesis using assms(1) up lo by (simp add: ilog2_def)
qed

lemma pow2_1024_large: "2 ^ 53 < pow2 1024"
proof -
  have "(2::rat) ^ 53 < 2 ^ 1024" by (rule power_strict_increasing) simp_all
  moreover have "pow2 1024 = 2 ^ 1024" unfolding pow2_def by (simp del: power_numeral)
  ultimately show ?thesis by (simp del: power_numeral)
qed

lemma to_double_between:
  assumes "1 \<le> x" and "x < 2 ^ 53"
  shows "\<exists>r. to_double x = Fin r \<and> of_int \<lfloor>x\<rfloor> \<le> r \<and> r \<le> of_int \<lceil>x\<rceil>"
proof -
  define e where "e = ilog2 x"
  define K :: int where "K = 2 ^ nat (52 - e)"
  define m where "m = round_half_even (x * of_int K)"
  define r :: rat where "r = of_int m / of_int K"
  have e_range: "0 \<le> e" "e \<le> 52" using ilog2_range [OF assms] by (simp_all add: e_def)
  have K_pos: "0 < K" by (simp add: K_def)
  have u: "pow2 (max e (- 1022) - 52) = 1 / of_int K"
  proof (cases "e = 52")
    case True
    then show ?thesis by (simp add: pow2_def K_def)
  next
    case False
    then have "e - 52 < 0" using e_range by simp
    moreover have "max e (- 1022) = e" using e_range by simp
    moreover have "- (e - 52) = 52 - e" by simp
    ultimately show ?thesis by (simp add: pow2_def K_def)
  qed
  have "\<lfloor>x\<rfloor> * K \<le> \<lfloor>x * of_int K\<rfloor>"
  proof -
    have "of_int (\<lfloor>x\<rfloor> * K) \<le> x * of_int K"
      using K_pos by (simp add: mult_right_mono)
    then show ?thesis by (simp only: le_floor_iff)
  qed
  then have m_lo: "\<lfloor>x\<rfloor> * K \<le> m"
    using round_half_even_bounds [of "x * of_int K"] by (simp add: m_def)
  have "\<lceil>x * of_int K\<rceil> \<le> \<lceil>x\<rceil> * K"
  proof -
    have "x * of_int K \<le> of_int (\<lceil>x\<rceil> * K)"
      using K_pos by (simp add: mult_right_mono)
    then show ?thesis by (simp only: ceiling_le_iff)
  qed
  then have m_hi: "m \<le> \<lceil>x\<rceil> * K"
    using round_half_even_bounds [of "x * of_int K"] by (simp add: m_def)
  have r_lo: "of_int \<lfloor>x\<rfloor> \<le> r"
  proof -
    have "(of_int (\<lfloor>x\<rfloor> * K) :: rat) \<le> of_int m" using m_lo by (simp only: of_int_le_iff)
    then show ?thesis using K_pos by (simp add: r_def pos_le_divide_eq)
  qed
  have r_hi: "r \<le> of_int \<lceil>x\<rceil>"
  proof -
    have "(of_int m :: rat) \<le> of_int (\<lceil>x\<rceil> * K)" using m_hi by (simp only: of_int_le_iff)
    then show ?thesis using K_pos by (simp add: r_def pos_divide_le_eq)
  qed
  have "\<lceil>x\<rceil> \<le> 2 ^ 53" using assms(2) by (simp add: ceiling_le_iff)
  then have "(of_int \<lceil>x\<rceil> :: rat) \<le> 2 ^ 53"
    by (metis of_int_le_iff of_int_numeral of_int_power)
  then have "r < pow2 1024" using r_hi pow2_1024_large by linarith
  then have no_overflow: "\<not> pow2 1024 \<le> r" by simp
  have x_pos: "0 < x" using assms(1) by simp
  have r_eq: "of_int (round_half_even (\<bar>x\<bar> / pow2 (max (ilog2 \<bar>x\<bar>) (- 1022) - 52))) *
      pow2 (max (ilog2 \<bar>x\<bar>) (- 1022) - 52) = r"
    using x_pos u by (simp add: e_def [symmetric] m_def r_def)
  have "to_double x = Fin r"
    unfolding to_double_def Let_def r_eq using x_pos no_overflow by simp
  then show ?thesis using r_lo r_hi by blast
qed

lemma to_double_of_int:
  assumes "1 \<le> n" and "n < 2 ^ 53"
  shows "to_double (of_int n) = Fin (of_int n)"
proof -
  have a: "1 \<le> (of_int n :: rat)" using assms(1) by simp
  have b: "(of_int n :: rat) < 2 ^ 53"
    using assms(2) by (metis of_int_less_iff of_int_numeral of_int_power)
  from to_double_between [OF a b] obtain r where
    "to_double (of_int n) = Fin r" "of_int n \<le> r" "r \<le> of_int n" by auto
  then show ?thesis by simp
qed

lemma js_round_of_int: "js_round (Fin (of_int n)) = Fin (of_int n)"
proof -
  have "\<lfloor>(of_int n :: rat) + 1 / 2\<rfloor> = n"
    by (simp add: floor_eq_iff)
  then show ?thesis by simp
qed

lemma scaled_int:
  assumes "1 \<le> n" and "n < 2 ^ 53"
  shows "js_round (to_double (of_int n)) = Fin (of_int n)"
  by (simp only: to_double_of_int [OF assms] js_round_of_int)

lemma round_half_away_of_int: "0 \<le> n \<Longrightarrow> round_half_away_from_zero (of_int n) = n"
proof -
  have "\<lfloor>(of_int n :: rat) + 1 / 2\<rfloor> = n"
    by (simp add: floor_eq_iff)
  then show "0 \<le> n \<Longrightarrow> round_half_away_from_zero (of_int n) = n"
    by (simp add: round_half_away_from_zero_def)
qed

section \<open>Image.getUpscaledDimensions\<close>

lemma validateDimensions_of_int:
  assumes "1 \<le> a" and "1 \<le> b"
  shows "validateDimensions (Fin (of_int a)) (Fin (of_int b)) =
     (if a \<le> 10000 \<and> b \<le> 10000 then Inr ()
      else Inl (Error ''Image dimensions exceed maximum allowed size (10000px)''))"
proof -
  have "(of_int a :: rat) \<le> 10000 \<longleftrightarrow> a \<le> 10000" "(of_int b :: rat) \<le> 10000 \<longleftrightarrow> b \<le> 10000"
    by (metis of_int_le_iff of_int_numeral)+
  then show ?thesis
    using assms by (auto simp: validateDimensions_def js_gt_def)
qed

lemma validateUpscaleFactor_iff:
  "validateUpscaleFactor f = Inr () \<longleftrightarrow> (\<exists>q. f = Fin q \<and> 1 < q \<and> q \<le> 4)"
  by (cases f) (auto simp: validateUpscaleFactor_def js_gt_def)

lemma integral_in_range_D:
  assumes "integral_in_range x"
  obtains n where "x = Fin (of_int n)" and "1 \<le> n" and "n \<le> 10000"
proof -
  from assms obtain q where q: "x = Fin q" "q = of_int \<lfloor>q\<rfloor>" "0 < q" "q \<le> 10000"
    by (cases x) (auto simp: integral_in_range_def)
  have "0 < \<lfloor>q\<rfloor>" using q(2,3) by (metis of_int_0_less_iff)
  moreover have "\<lfloor>q\<rfloor> \<le> 10000" using q(4) by (simp add: floor_le_iff)
  ultimately show ?thesis using that [of "\<lfloor>q\<rfloor>"] q(1,2) by simp
qed

lemma scaled_axis:
  assumes "1 \<le> n" and "n \<le> 10000" and "1 < q" and "q \<le> 4"
  shows "\<exists>p. js_mul (Fin (of_int n)) (Fin q) = Fin p \<and> 1 \<le> p \<and>
             of_int \<lfloor>of_int n * q\<rfloor> \<le> p \<and> p \<le> of_int \<lceil>of_int n * q\<rceil>"
proof -
  let ?x = "of_int n * q :: rat"
  have n1: "(1::rat) \<le> of_int n" using assms(1) by simp
  have n2: "(of_int n :: rat) \<le> 10000" using assms(2) by (metis of_int_le_iff of_int_numeral)
  have "1 * 1 \<le> ?x" using n1 assms(3) by (intro mult_mono) simp_all
  then have lo: "1 \<le> ?x" by simp
  have "?x \<le> 10000 * 4" using n1 n2 assms(3,4) by (intro mult_mono) simp_all
  then have hi: "?x < 2 ^ 53" by simp
  from to_double_between [OF lo hi] obtain r where
    r: "to_double ?x = Fin r" "of_int \<lfloor>?x\<rfloor> \<le> r" "r \<le> of_int \<lceil>?x\<rceil>" by blast
  have "1 \<le> \<lfloor>?x\<rfloor>" using lo by (simp add: le_floor_iff)
  then have "(1::rat) \<le> of_int \<lfloor>?x\<rfloor>" by simp
  then have "1 \<le> r" using r(2) by linarith
  then show ?thesis using r by simp
qed

lemma rounded_axis:
  assumes "1 \<le> p"
  shows "js_round (Fin p) = Fin (of_int (round_half_away_from_zero p)) \<and>
         1 \<le> round_half_away_from_zero p"
proof -
  have "1 \<le> \<lfloor>p + 1 / 2\<rfloor>" using assms by (simp add: le_floor_iff)
  then show ?thesis using assms by (simp add: round_half_away_from_zero_def)
qed

lemma new_sample_image:
  "new_Image ''img-123'' (Fin 1920) (Fin 1080) (JStr ''jpeg'') (Fin 500000) 0 = Inr sample_image"
proof -
  have "validateFormat (JStr ''jpeg'') = Inr ()" by code_simp
  then show ?thesis
    by (simp add: new_Image_def sample_image_def validateDimensions_def js_gt_def
        validateFileSize_Fin)
qed

lemma new_wide_image:
  "new_Image ''img-2'' (Fin 5000) (Fin 2000) (JStr ''png'') (Fin 2000000) 0 = Inr wide_image"
proof -
  have "validateFormat (JStr ''png'') = Inr ()" by code_simp
  then show ?thesis
    by (simp add: new_Image_def wide_image_def validateDimensions_def js_gt_def
        validateFileSize_Fin)
qed

lemma new_oversized_image:
  "new_Image ''img-1'' (Fin 5000) (Fin 5000) (JStr ''jpeg'') (Fin 2000000) 0 = Inr oversized_image"
proof -
  have "validateFormat (JStr ''jpeg'') = Inr ()" by code_simp
  then show ?thesis
    by (simp add: new_Image_def oversized_image_def validateDimensions_def js_gt_def
        validateFileSize_Fin)
qed

text \<open>
  Claim C1 as stated: \<open>getUpscaledDimensions\<close> succeeds with the scaled result even when
  the scaled axes exceed 10000. The result is built by the \<open>ImageDimensions\<close>
  constructor, which validates it: a valid 5000 by 5000 image scaled by the valid factor
  4 gives 20000 by 20000, and the call throws.
\<close>

theorem getUpscaledDimensions_oversized_counterexample:
  "new_Image ''img-1'' (Fin 5000) (Fin 5000) (JStr ''jpeg'') (Fin 2000000) 0 = Inr oversized_image \<and>
   validateUpscaleFactor (Fin 4) = Inr () \<and>
   getUpscaledDimensions oversized_image (Fin 4) =
     Inl (Error ''Image dimensions exceed maximum allowed size (10000px)'')"
proof -
  have 2: "validateUpscaleFactor (Fin 4) = Inr ()"
    by (simp add: validateUpscaleFactor_def js_gt_def)
  have m: "js_round (to_double 20000) = Fin 20000"
    using scaled_int [of 20000] by simp
  have 3: "getUpscaledDimensions oversized_image (Fin 4) =
     Inl (Error ''Image dimensions exceed maximum allowed size (10000px)'')"
    by (simp add: getUpscaledDimensions_def 2 oversized_image_def m new_ImageDimensions_def
        validateDimensions_def js_gt_def)
  show ?thesis using new_oversized_image 2 3 by simp
qed

text \<open>
  Claim C1, amended: for every validly constructed \<open>Image\<close> and every valid factor
  \<open>1 < f \<le> 4\<close>, the products \<open>width * f\<close> and \<open>height * f\<close> that the program computes are
  finite doubles \<open>pw\<close> and \<open>ph\<close>, each between the floor and the ceiling of the exact
  product. If both, rounded to the nearest integer with a tie going away from zero, are
  at most 10000, \<open>getUpscaledDimensions\<close> returns a new \<open>ImageDimensions\<close> with these two
  rounded values; otherwise it throws ``Image dimensions exceed maximum allowed size
  (10000px)''. Nothing else is checked: \<open>canBeUpscaled\<close> plays no part.
\<close>

theorem getUpscaledDimensions_result:
  assumes "new_Image i w h fmt sz t = Inr img" and "validateUpscaleFactor f = Inr ()"
  shows "\<exists>wq hq fq pw ph.
      img_width img = Fin wq \<and> img_height img = Fin hq \<and> f = Fin fq \<and>
      js_mul (img_width img) f = Fin pw \<and> js_mul (img_height img) f = Fin ph \<and>
      of_int \<lfloor>wq * fq\<rfloor> \<le> pw \<and> pw \<le> of_int \<lceil>wq * fq\<rceil> \<and>
      of_int \<lfloor>hq * fq\<rfloor> \<le> ph \<and> ph \<le> of_int \<lceil>hq * fq\<rceil> \<and>
      getUpscaledDimensions img f =
        (if round_half_away_from_zero pw \<le> 10000 \<and> round_half_away_from_zero ph \<le> 10000
         then Inr \<lparr>dim_width = Fin (of_int (round_half_away_from_zero pw)),
                   dim_height = Fin (of_int (round_half_away_from_zero ph))\<rparr>
         else Inl (Error ''Image dimensions exceed maximum allowed size (10000px)''))"
proof -
  from assms(1) have dims: "validateDimensions w h = Inr ()" and
    img: "img_width img = w" "img_height img = h"
    by (auto simp: new_Image_def split: sum.splits)
  from dims have "integral_in_range w" "integral_in_range h"
    unfolding validateDimensions_cases integral_in_range_iff by (auto split: if_splits)
  then obtain a b where a: "w = Fin (of_int a)" "1 \<le> a" "a \<le> 10000"
    and b: "h = Fin (of_int b)" "1 \<le> b" "b \<le> 10000"
    by (meson integral_in_range_D)
  from assms(2) obtain q where q: "f = Fin q" "1 < q" "q \<le> 4"
    unfolding validateUpscaleFactor_iff by blast
  from scaled_axis [OF a(2,3) q(2,3)] obtain pw where
    pw: "js_mul (Fin (of_int a)) (Fin q) = Fin pw" "1 \<le> pw"
      "of_int \<lfloor>of_int a * q\<rfloor> \<le> pw" "pw \<le> of_int \<lceil>of_int a * q\<rceil>" by blast
  from scaled_axis [OF b(2,3) q(2,3)] obtain ph where
    ph: "js_mul (Fin (of_int b)) (Fin q) = Fin ph" "1 \<le> ph"
      "of_int \<lfloor>of_int b * q\<rfloor> \<le> ph" "ph \<le> of_int \<lceil>of_int b * q\<rceil>" by blast
  note rw = rounded_axis [OF pw(2)] and rh = rounded_axis [OF ph(2)]
  have "getUpscaledDimensions img f =
        (if round_half_away_from_zero pw \<le> 10000 \<and> round_half_away_from_zero ph \<le> 10000
         then Inr \<lparr>dim_width = Fin (of_int (round_half_away_from_zero pw)),
                   dim_height = Fin (of_int (round_half_away_from_zero ph))\<rparr>
         else Inl (Error ''Image dimensions exceed maximum allowed size (10000px)''))"
    unfolding getUpscaledDimensions_def new_ImageDimensions_def img a(1) b(1) q(1) pw(1) ph(1)
    using assms(2) rw rh
      validateDimensions_of_int [of "round_half_away_from_zero pw" "round_half_away_from_zero ph"]
    by (simp add: q(1) del: js_round.simps)
  then show ?thesis
    using img a(1) b(1) q(1) pw ph by auto
qed

text \<open>
  The amended claim on the image of the tests with the factor 1.5 (2880 by 1620), and on
  a 5000 by 2000 image, which \<open>canBeUpscaled\<close> refuses, with the factor 2 (10000 by
  4000).
\<close>

theorem getUpscaledDimensions_result_witness:
  "new_Image ''img-123'' (Fin 1920) (Fin 1080) (JStr ''jpeg'') (Fin 500000) 0 = Inr sample_image \<and>
   validateUpscaleFactor (Fin (3 / 2)) = Inr () \<and>
   getUpscaledDimensions sample_image (Fin (3 / 2)) =
     Inr \<lparr>dim_width = Fin 2880, dim_height = Fin 1620\<rparr> \<and>
   new_Image ''img-2'' (Fin 5000) (Fin 2000) (JStr ''png'') (Fin 2000000) 0 = Inr wide_image \<and>
   validateUpscaleFactor (Fin 2) = Inr () \<and>
   \<not> canBeUpscaled wide_image \<and>
   getUpscaledDimensions wide_image (Fin 2) =
     Inr \<lparr>dim_width = Fin 10000, dim_height = Fin 4000\<rparr>"
proof -
  have f1: "validateUpscaleFactor (Fin (3 / 2)) = Inr ()"
    by (simp add: validateUpscaleFactor_def js_gt_def)
  have f2: "validateUpscaleFactor (Fin 2) = Inr ()"
    by (simp add: validateUpscaleFactor_def js_gt_def)
  have r1: "getUpscaledDimensions sample_image (Fin (3 / 2)) =
     Inr \<lparr>dim_width = Fin 2880, dim_height = Fin 1620\<rparr>"
  proof -
    from getUpscaledDimensions_result [OF new_sample_image f1] obtain pw ph where
      p: "js_mul (img_width sample_image) (Fin (3 / 2)) = Fin pw"
         "js_mul (img_height sample_image) (Fin (3 / 2)) = Fin ph" and
      res: "getUpscaledDimensions sample_image (Fin (3 / 2)) =
        (if round_half_away_from_zero pw \<le> 10000 \<and> round_half_away_from_zero ph \<le> 10000
         then Inr \<lparr>dim_width = Fin (of_int (round_half_away_from_zero pw)),
                   dim_height = Fin (of_int (round_half_away_from_zero ph))\<rparr>
         else Inl (Error ''Image dimensions exceed maximum allowed size (10000px)''))"
      by blast
    have "pw = 2880" using p(1) to_double_of_int [of 2880] by (simp add: sample_image_def)
    moreover have "ph = 1620" using p(2) to_double_of_int [of 1620] by (simp add: sample_image_def)
    ultimately show ?thesis
      using res round_half_away_of_int [of 2880] round_half_away_of_int [of 1620] by simp
  qed
  have r2: "getUpscaledDimensions wide_image (Fin 2) =
     Inr \<lparr>dim_width = Fin 10000, dim_height = Fin 4000\<rparr>"
  proof -
    from getUpscaledDimensions_result [OF new_wide_image f2] obtain pw ph where
      p: "js_mul (img_width wide_image) (Fin 2) = Fin pw"
         "js_mul (img_height wide_image) (Fin 2) = Fin ph" and
      res: "getUpscaledDimensions wide_image (Fin 2) =
        (if round_half_away_from_zero pw \<le> 10000 \<and> round_half_away_from_zero ph \<le> 10000
         then Inr \<lparr>dim_width = Fin (of_int (round_half_away_from_zero pw)),
                   dim_height = Fin (of_int (round_half_away_from_zero ph))\<rparr>
         else Inl (Error ''Image dimensions exceed maximum allowed size (10000px)''))"
      by blast
    have "pw = 10000" using p(1) to_double_of_int [of 10000] by (simp add: wide_image_def)
    moreover have "ph = 4000" using p(2) to_double_of_int [of 4000] by (simp add: wide_image_def)
    ultimately show ?thesis
      using res round_half_away_of_int [of 10000] round_half_away_of_int [of 4000] by simp
  qed
  have c: "\<not> canBeUpscaled wide_image"
    by (simp add: canBeUpscaled_def wide_image_def)
  show ?thesis using new_sample_image new_wide_image f1 f2 r1 r2 c by simp
qed

lemma pow2_1024_gt: "x \<le> 2 ^ 53 \<Longrightarrow> \<not> pow2 1024 \<le> x"
  using pow2_1024_large by linarith

text \<open>
  The product is the program's, not the exact one. The factor \<open>(5.5 - 2 ^ -52) / 3\<close> is a
  double between 1 and 2; three times it is just below 5.5 and is rounded, as a double,
  to 5.5 itself, which \<^verbatim>\<open>Math.round\<close> takes to 6, where the exact product rounds to 5.
\<close>

lemma double_product_tie:
  "to_double ((11 / 2 - 1 / 2 ^ 52) / 3) = Fin ((11 / 2 - 1 / 2 ^ 52) / 3) \<and>
   js_round (js_mul (Fin 3) (Fin ((11 / 2 - 1 / 2 ^ 52) / 3))) = Fin 6 \<and>
   round_half_away_from_zero (3 * ((11 / 2 - 1 / 2 ^ 52) / 3)) = 5"
proof -
  let ?f = "(11 / 2 - 1 / 2 ^ 52) / 3 :: rat"
  let ?p = "11 / 2 - 1 / 2 ^ 52 :: rat"
  have ff: "\<lfloor>?f\<rfloor> = 1" by (simp add: floor_eq_iff)
  have fp: "\<lfloor>?p\<rfloor> = 5" by (simp add: floor_eq_iff)
  have ef: "ilog2 ?f = 0"
    unfolding ilog2_def ff by (simp add: compute_floorlog)
  have ep: "ilog2 ?p = 2"
    unfolding ilog2_def fp by (simp add: compute_floorlog)
  have mf: "round_half_even (?f * 2 ^ 52) = 8256599316845909"
  proof -
    have "?f * 2 ^ 52 = 8256599316845909" by simp
    then show ?thesis by (simp add: round_half_even_def Let_def)
  qed
  have mp: "round_half_even (?p * 2 ^ 50) = 6192449487634432"
  proof -
    have v: "?p * 2 ^ 50 = 6192449487634432 - 1 / 4" by simp
    have fl: "\<lfloor>6192449487634432 - 1 / 4 :: rat\<rfloor> = 6192449487634431"
      by (simp add: floor_eq_iff)
    show ?thesis unfolding v round_half_even_def Let_def fl by simp
  qed
  have 1: "to_double ?f = Fin ?f"
  proof -
    have a: "\<bar>?f\<bar> = ?f" by simp
    have u: "pow2 (max 0 (- 1022) - 52) = 1 / 2 ^ 52" by (simp add: pow2_def)
    have r: "of_int (round_half_even (?f / (1 / 2 ^ 52))) * (1 / 2 ^ 52) = ?f"
      using mf by simp
    have no: "\<not> pow2 1024 \<le> ?f" by (rule pow2_1024_gt) simp
    have nz: "?f \<noteq> 0" "0 < ?f" by simp_all
    show ?thesis
      unfolding to_double_def Let_def a ef u r using no nz by simp
  qed
  have 2: "to_double ?p = Fin (11 / 2)"
  proof -
    have a: "\<bar>?p\<bar> = ?p" by simp
    have u: "pow2 (max 2 (- 1022) - 52) = 1 / 2 ^ 50" by (simp add: pow2_def)
    have r: "of_int (round_half_even (?p / (1 / 2 ^ 50))) * (1 / 2 ^ 50) = (11 / 2 :: rat)"
      using mp by simp
    have no: "\<not> pow2 1024 \<le> (11 / 2 :: rat)" by (rule pow2_1024_gt) simp
    have nz: "?p \<noteq> 0" "0 < ?p" by simp_all
    show ?thesis
      unfolding to_double_def Let_def a ep u r using no nz by simp
  qed
  have prod: "3 * ?f = ?p" by simp
  have 3: "js_round (js_mul (Fin 3) (Fin ?f)) = Fin 6"
  proof -
    have "\<lfloor>11 / 2 + 1 / 2 :: rat\<rfloor> = 6" by (simp add: floor_eq_iff)
    then show ?thesis unfolding js_mul.simps prod 2 by simp
  qed
  have 4: "round_half_away_from_zero (3 * ?f) = 5"
  proof -
    have "\<lfloor>?p + 1 / 2\<rfloor> = 5" by (simp add: floor_eq_iff)
    then show ?thesis unfolding prod round_half_away_from_zero_def by simp
  qed
  show ?thesis using 1 3 4 by simp
qed

lemma getUpscaledDimensions_double_product:
  "getUpscaledDimensions tiny_image (Fin ((11 / 2 - 1 / 2 ^ 52) / 3)) =
     Inr \<lparr>dim_width = Fin 6, dim_height = Fin 6\<rparr>"
proof -
  have v: "validateUpscaleFactor (Fin ((11 / 2 - 1 / 2 ^ 52) / 3)) = Inr ()"
    by (simp add: validateUpscaleFactor_def js_gt_def)
  have d: "validateDimensions (Fin 6) (Fin 6) = Inr ()"
    by (simp add: validateDimensions_def js_gt_def)
  show ?thesis
    using double_product_tie
    by (simp only: getUpscaledDimensions_def v tiny_image_def Image.simps sum.case
        new_ImageDimensions_def d)
qed

section \<open>EnhanceImageUseCase.execute\<close>

lemmas prog_defs = bind_def ret_def lift_def Date_now_def Math_random_suffix_def dated_def
  await_loadImage_def await_enhanceImage_def set_originalImage_def set_job_def
  get_originalImage_def get_job_def on_job_def on_job_dated_def optional_job_fail_def
  generateImageId_def generateJobId_def try_catch_def

lemma execute_unfold:
  "execute E request s =
     try_catch (try_block E request (clock E (ticks s)) (upscaleFactor_or_default request))
       (catch_block E (clock E (ticks s))) (entry_state s)"
  by (simp add: execute_def entry_state_def bind_def Date_now_def set_originalImage_def
      set_job_def Let_def)

text \<open>Wherever the \<^verbatim>\<open>try\<close> block throws, the job does not exist yet or is IN_PROGRESS.\<close>

lemma try_block_throw_job:
  assumes "try_block E request st f s = (Inl e, s1)" and "var_job s = None"
  shows "var_job s1 = None \<or> (\<exists>j. var_job s1 = Some j \<and> job_status j = IN_PROGRESS)"
  using assms
  unfolding try_block_def prog_defs
  by (auto simp: Let_def startProcessing_def completeSuccessfully_def new_ProcessingJob_def
      split: sum.splits prod.splits if_splits option.splits)

lemma catch_block_no_job:
  assumes "var_job s1 = None"
  shows "catch_block E st e s1 =
     (Inr \<lparr>success = False, enhancedImageData = None, originalImage = var_originalImage s1,
           job = None, enhancedDimensions = None,
           processingTimeMs = Fin (of_int (clock E (ticks s1) - st)),
           errorMessage = Some (message_of e)\<rparr>,
      s1\<lparr>ticks := Suc (ticks s1)\<rparr>)"
  using assms by (simp add: catch_block_def prog_defs Let_def)

lemma catch_block_job_in_progress:
  assumes "var_job s1 = Some j" and "job_status j = IN_PROGRESS"
  shows "catch_block E st e s1 =
     (Inr \<lparr>success = False, enhancedImageData = None, originalImage = var_originalImage s1,
           job = Some (j\<lparr>job_status := FAILED, job_errorMessage := Some (message_of e),
                          job_completedAt := Some (clock E (Suc (ticks s1)))\<rparr>),
           enhancedDimensions = None,
           processingTimeMs = Fin (of_int (clock E (ticks s1) - st)),
           errorMessage = Some (message_of e)\<rparr>,
      s1\<lparr>var_job := Some (j\<lparr>job_status := FAILED, job_errorMessage := Some (message_of e),
                          job_completedAt := Some (clock E (Suc (ticks s1)))\<rparr>),
         ticks := Suc (Suc (ticks s1))\<rparr>)"
  using assms by (simp add: catch_block_def prog_defs Let_def fail_def)

lemma try_block_resolver_rejects:
  assumes "validateUpscaleFactor f = Inr ()"
    and "loadImage E (imageInput request) = Inr L"
    and "validateDimensions (width L) (height L) = Inr ()"
    and "validateFileSize (sizeBytes L) = Inr ()"
    and "validateFormat (format L) = Inr ()"
    and "enhanceImage E (data L) f = Inl e"
  shows "\<exists>s1 j. try_block E request st f s = (Inl e, s1) \<and> var_job s1 = Some j"
  unfolding try_block_def prog_defs
  using assms
  by (auto simp: new_Image_def startProcessing_def new_ProcessingJob_def
      split: sum.splits prod.splits if_splits option.splits)

text \<open>
  Claim C2: \<open>execute\<close> always returns a response and never throws. Whatever the \<^verbatim>\<open>try\<close>
  block throws, the response has \<open>success = false\<close>, the message of what was thrown and
  the time elapsed since entry; the job, if one was created by then, is IN_PROGRESS and is
  turned to FAILED with that message, and if none was created no transition is attempted.
  In particular, when the resolver rejects after the job was created, the job of the
  response is FAILED and its error message is the resolver's.
\<close>

theorem execute_catches:
  "\<exists>resp s'. execute E request s = (Inr resp, s') \<and>
     (\<forall>e s1. try_block E request (clock E (ticks s)) (upscaleFactor_or_default request)
                (entry_state s) = (Inl e, s1) \<longrightarrow>
        success resp = False \<and>
        errorMessage resp = Some (message_of e) \<and>
        processingTimeMs resp = Fin (of_int (clock E (ticks s1) - clock E (ticks s))) \<and>
        (case var_job s1 of
           None \<Rightarrow> job resp = None
         | Some j \<Rightarrow>
             job_status j = IN_PROGRESS \<and>
             job resp = Some (j\<lparr>job_status := FAILED,
                                 job_errorMessage := Some (message_of e),
                                 job_completedAt := Some (clock E (Suc (ticks s1)))\<rparr>))) \<and>
     (\<forall>L m. validateUpscaleFactor (upscaleFactor_or_default request) = Inr () \<and>
            loadImage E (imageInput request) = Inr L \<and>
            validateDimensions (width L) (height L) = Inr () \<and>
            validateFileSize (sizeBytes L) = Inr () \<and>
            validateFormat (format L) = Inr () \<and>
            enhanceImage E (data L) (upscaleFactor_or_default request) = Inl (Error m) \<longrightarrow>
        success resp = False \<and>
        errorMessage resp = Some m \<and>
        (\<exists>j. job resp = Some j \<and> job_status j = FAILED \<and> job_errorMessage j = Some m))"
proof -
  let ?st = "clock E (ticks s)"
  let ?f = "upscaleFactor_or_default request"
  let ?body = "try_block E request ?st ?f (entry_state s)"
  have no_job: "var_job (entry_state s) = None"
    by (simp add: entry_state_def)
  define s1 where "s1 = snd ?body"
  show ?thesis
  proof (cases "fst ?body")
    case (Inr resp)
    then have t: "?body = (Inr resp, s1)"
      by (simp add: s1_def prod_eq_iff)
    have ex: "execute E request s = (Inr resp, s1)"
      unfolding execute_unfold by (simp add: try_catch_def t)
    have rej: False
      if "validateUpscaleFactor ?f = Inr ()" "loadImage E (imageInput request) = Inr L"
        "validateDimensions (width L) (height L) = Inr ()" "validateFileSize (sizeBytes L) = Inr ()"
        "validateFormat (format L) = Inr ()" "enhanceImage E (data L) ?f = Inl (Error m)" for L m
      using try_block_resolver_rejects [where st = ?st and s = "entry_state s", OF that] t by auto
    show ?thesis
      unfolding ex using t rej by auto
  next
    case (Inl e)
    have t: "?body = (Inl e, s1)"
      using Inl by (simp add: s1_def prod_eq_iff)
    from try_block_throw_job [OF t no_job]
    show ?thesis
    proof
      assume nj: "var_job s1 = None"
      have ex: "execute E request s =
        (Inr \<lparr>success = False, enhancedImageData = None, originalImage = var_originalImage s1,
           job = None, enhancedDimensions = None,
           processingTimeMs = Fin (of_int (clock E (ticks s1) - ?st)),
           errorMessage = Some (message_of e)\<rparr>,
         s1\<lparr>ticks := Suc (ticks s1)\<rparr>)"
        unfolding execute_unfold by (simp add: try_catch_def t catch_block_no_job [OF nj])
      have rej: False
        if "validateUpscaleFactor ?f = Inr ()" "loadImage E (imageInput request) = Inr L"
          "validateDimensions (width L) (height L) = Inr ()" "validateFileSize (sizeBytes L) = Inr ()"
          "validateFormat (format L) = Inr ()" "enhanceImage E (data L) ?f = Inl (Error m)" for L m
        using try_block_resolver_rejects [where st = ?st and s = "entry_state s", OF that] t nj by auto
      show ?thesis
        unfolding ex using t nj rej by auto
    next
      assume "\<exists>j. var_job s1 = Some j \<and> job_status j = IN_PROGRESS"
      then obtain j where j: "var_job s1 = Some j" "job_status j = IN_PROGRESS" by blast
      let ?j' = "j\<lparr>job_status := FAILED, job_errorMessage := Some (message_of e),
                   job_completedAt := Some (clock E (Suc (ticks s1)))\<rparr>"
      have ex: "execute E request s =
        (Inr \<lparr>success = False, enhancedImageData = None, originalImage = var_originalImage s1,
           job = Some ?j', enhancedDimensions = None,
           processingTimeMs = Fin (of_int (clock E (ticks s1) - ?st)),
           errorMessage = Some (message_of e)\<rparr>,
         s1\<lparr>var_job := Some ?j', ticks := Suc (Suc (ticks s1))\<rparr>)"
        unfolding execute_unfold by (simp add: try_catch_def t catch_block_job_in_progress [OF j])
      have rej: "e = Error m"
        if "validateUpscaleFactor ?f = Inr ()" "loadImage E (imageInput request) = Inr L"
          "validateDimensions (width L) (height L) = Inr ()" "validateFileSize (sizeBytes L) = Inr ()"
          "validateFormat (format L) = Inr ()" "enhanceImage E (data L) ?f = Inl (Error m)" for L m
        using try_block_resolver_rejects [where st = ?st and s = "entry_state s", OF that] t by auto
      show ?thesis
        unfolding ex using t j rej by (auto simp: message_of_def)
    qed
  qed
qed

lemma sample_validations:
  "validateUpscaleFactor (Fin 2) = Inr ()"
  "validateDimensions (Fin 800) (Fin 600) = Inr ()"
  "validateFileSize (Fin 50000) = Inr ()"
  "validateFormat (JStr ''jpeg'') = Inr ()"
proof -
  show "validateUpscaleFactor (Fin 2) = Inr ()"
    by (simp add: validateUpscaleFactor_def js_gt_def)
  show "validateDimensions (Fin 800) (Fin 600) = Inr ()"
    by (simp add: validateDimensions_def js_gt_def)
  show "validateFileSize (Fin 50000) = Inr ()"
    by (simp add: validateFileSize_Fin)
  show "validateFormat (JStr ''jpeg'') = Inr ()"
    by code_simp
qed

text \<open>
  Claim C2 in the scenario of the tests where the resolver rejects with ``AI processing
  failed'': the promise resolves, the response reports the failure with that message,
  and its job is FAILED with the same message.
\<close>

theorem execute_catches_witness:
  "\<exists>resp s'. execute failing_env sample_request initial_state = (Inr resp, s') \<and>
     success resp = False \<and>
     errorMessage resp = Some ''AI processing failed'' \<and>
     (\<exists>j. job resp = Some j \<and> job_status j = FAILED \<and>
          job_errorMessage j = Some ''AI processing failed'')"
proof -
  have f: "upscaleFactor_or_default sample_request = Fin 2"
    by (simp add: upscaleFactor_or_default_def sample_request_def)
  have pre: "validateUpscaleFactor (upscaleFactor_or_default sample_request) = Inr () \<and>
      loadImage failing_env (imageInput sample_request) = Inr sample_loaded \<and>
      validateDimensions (width sample_loaded) (height sample_loaded) = Inr () \<and>
      validateFileSize (sizeBytes sample_loaded) = Inr () \<and>
      validateFormat (format sample_loaded) = Inr () \<and>
      enhanceImage failing_env (data sample_loaded) (upscaleFactor_or_default sample_request) =
        Inl (Error ''AI processing failed'')"
    using sample_validations by (simp add: f failing_env_def sample_loaded_def)
  from execute_catches [of failing_env sample_request initial_state] pre
  show ?thesis by blast
qed

section \<open>EnhanceImageUseCase.execute: the factor is validated before any port is called\<close>

text \<open>
  Claim C9: when the factor of the request, or 2 if the request has none, is not valid,
  \<open>execute\<close> returns a response with \<open>success = false\<close> and the validator's message, and
  the list of port calls is what it was on entry: the loader is never invoked (nor is the
  resolver).
\<close>

theorem execute_invalid_factor:
  assumes "validateUpscaleFactor (upscaleFactor_or_default request) = Inl e"
  shows "\<exists>resp s'. execute E request s = (Inr resp, s') \<and>
     success resp = False \<and>
     errorMessage resp = Some (message_of e) \<and>
     calls s' = calls s"
proof -
  have t: "try_block E request (clock E (ticks s)) (upscaleFactor_or_default request) (entry_state s) =
      (Inl e, entry_state s)"
    unfolding try_block_def by (simp add: bind_def lift_def assms)
  have nj: "var_job (entry_state s) = None"
    by (simp add: entry_state_def)
  have "execute E request s =
      (Inr \<lparr>success = False, enhancedImageData = None,
            originalImage = var_originalImage (entry_state s),
            job = None, enhancedDimensions = None,
            processingTimeMs = Fin (of_int (clock E (ticks (entry_state s)) - clock E (ticks s))),
            errorMessage = Some (message_of e)\<rparr>,
       (entry_state s)\<lparr>ticks := Suc (ticks (entry_state s))\<rparr>)"
    unfolding execute_unfold by (simp add: try_catch_def t catch_block_no_job [OF nj])
  then show ?thesis
    by (simp add: entry_state_def)
qed

text \<open>
  Claim C9 on the factor 5 of the tests, with a loader that would have resolved: no port
  call is recorded.
\<close>

theorem execute_invalid_factor_witness:
  "validateUpscaleFactor (upscaleFactor_or_default (sample_request\<lparr>upscaleFactor := Some (Fin 5)\<rparr>)) =
     Inl (Error ''Upscale factor cannot exceed 4x for performance reasons'') \<and>
   (\<exists>resp s'. execute sample_env (sample_request\<lparr>upscaleFactor := Some (Fin 5)\<rparr>) initial_state =
        (Inr resp, s') \<and>
      success resp = False \<and>
      errorMessage resp = Some ''Upscale factor cannot exceed 4x for performance reasons'' \<and>
      calls s' = [])"
proof -
  have v: "validateUpscaleFactor (upscaleFactor_or_default (sample_request\<lparr>upscaleFactor := Some (Fin 5)\<rparr>)) =
     Inl (Error ''Upscale factor cannot exceed 4x for performance reasons'')"
    by (simp add: upscaleFactor_or_default_def validateUpscaleFactor_def js_gt_def)
  from execute_invalid_factor [OF v, of sample_env initial_state]
  show ?thesis using v by (auto simp: message_of_def initial_state_def)
qed

section \<open>EnhanceImageUseCase.execute: the successful scenario\<close>

text \<open>
  Claim C8: given a request with no factor, a loader that resolves to an 800 by 600 jpeg
  of 50000 bytes and a resolver that succeeds, the factor 2 is the one passed to the
  resolver, and the response has \<open>success = true\<close>, the enhanced dimensions 1600 by 1200
  and a job whose status is COMPLETED.
\<close>

theorem execute_default_factor:
  assumes "upscaleFactor request = None"
    and "loadImage E (imageInput request) = Inr L"
    and "width L = Fin 800" and "height L = Fin 600"
    and "format L = JStr ''jpeg''" and "sizeBytes L = Fin 50000"
    and "enhanceImage E (data L) (Fin 2) = Inr R"
  shows "\<exists>resp s' j. execute E request s = (Inr resp, s') \<and>
     success resp = True \<and>
     enhancedDimensions resp = Some \<lparr>dim_width = Fin 1600, dim_height = Fin 1200\<rparr> \<and>
     job resp = Some j \<and> job_status j = COMPLETED \<and>
     job_enhancedDimensions j = Some \<lparr>dim_width = Fin 1600, dim_height = Fin 1200\<rparr> \<and>
     enhancedImageData resp = Some (result_enhancedImageData R) \<and>
     calls s' = calls s @ [LoadImageCall (imageInput request), EnhanceImageCall (data L) (Fin 2)]"
proof -
  have f: "upscaleFactor_or_default request = Fin 2"
    by (simp add: upscaleFactor_or_default_def assms(1))
  have w: "js_round (to_double 1600) = Fin 1600"
    using scaled_int [of 1600] by simp
  have h: "js_round (to_double 1200) = Fin 1200"
    using scaled_int [of 1200] by simp
  have up: "getUpscaledDimensions
      \<lparr>img_id = ident, img_width = Fin 800, img_height = Fin 600, img_format = JStr ''jpeg'',
       img_sizeInBytes = Fin 50000, img_createdAt = t\<rparr> (Fin 2) =
      Inr \<lparr>dim_width = Fin 1600, dim_height = Fin 1200\<rparr>" for ident t
    by (simp add: getUpscaledDimensions_def sample_validations new_ImageDimensions_def w h
        validateDimensions_def js_gt_def)
  show ?thesis
    unfolding execute_unfold f try_block_def prog_defs
    using assms(2-) sample_validations up
    by (simp add: entry_state_def new_Image_def new_ProcessingJob_def startProcessing_def
        completeSuccessfully_def Let_def)
qed

text \<open>Claim C8 in the environment of the tests.\<close>

theorem execute_default_factor_witness:
  "\<exists>resp s' j. execute sample_env sample_request initial_state = (Inr resp, s') \<and>
     success resp = True \<and>
     enhancedDimensions resp = Some \<lparr>dim_width = Fin 1600, dim_height = Fin 1200\<rparr> \<and>
     job resp = Some j \<and> job_status j = COMPLETED \<and>
     calls s' = [LoadImageCall (StringInput ''test.jpg''), EnhanceImageCall [1, 2, 3] (Fin 2)]"
proof -
  have 1: "upscaleFactor sample_request = None"
    by (simp add: sample_request_def)
  have 2: "loadImage sample_env (imageInput sample_request) = Inr sample_loaded"
    by (simp add: sample_env_def)
  have 3: "width sample_loaded = Fin 800" "height sample_loaded = Fin 600"
    "format sample_loaded = JStr ''jpeg''" "sizeBytes sample_loaded = Fin 50000"
    by (simp_all add: sample_loaded_def)
  have 4: "enhanceImage sample_env (data sample_loaded) (Fin 2) = Inr sample_result"
    by (simp add: sample_env_def)
  from execute_default_factor [OF 1 2 3 4, of initial_state]
  show ?thesis
    by (auto simp: initial_state_def sample_request_def sample_loaded_def)
qed

end
